theory Spec2Isabelle
  imports Complex_Main "HOL-Library.Multiset"
begin

section \<open>Cube state\<close>

text \<open>
  The class \<open>RubikCubeSolver\<close> keeps two cubes: \<open>this.cube\<close>, which the editor paints, and
  \<open>this.cube3D\<close>, which the solution player turns. Each is an object with the six keys
  \<open>U, D, F, B, L, R\<close> (created in that order), each holding an array of three rows of three
  colour names. A colour name is a JavaScript string; \<open>'empty'\<close> marks an unpainted sticker.

  A cube is modelled as a function from the face key to its grid, a grid as a list of rows.
  The key order of the object (the order of \<open>Object.keys\<close> and \<open>Object.values\<close>) is \<open>faceKeys\<close>.
  The values the program stores in a sticker are \<open>'empty'\<close> (the constructor and
  \<open>resetCube\<close>) and the six colour names (\<open>scrambleCube\<close>, the palette): \<open>paletteCube\<close>
  below states that of a cube. None of these names is the name of a member of
  \<open>Object.prototype\<close> or an array index, so on them a plain object used as a dictionary
  behaves as an insertion-ordered map. On other names it does not, and the results on the
  two dictionaries of the program, \<open>colorCounts\<close> and \<open>colorMap\<close>, are stated for cubes
  that satisfy \<open>paletteCube\<close>.
\<close>

type_synonym color = string
type_synonym grid = "color list list"

datatype face = U | D | F | B | L | R

type_synonym cube = "face \<Rightarrow> grid"

definition faceKeys :: "face list" where
  "faceKeys = [U, D, F, B, L, R]"

text \<open>\<open>Array(3).fill().map(() => Array(3).fill('empty'))\<close>\<close>

definition emptyFace :: grid where
  "emptyFace = replicate 3 (replicate 3 ''empty'')"

definition emptyCube :: cube where
  "emptyCube = (\<lambda>face. emptyFace)"

text \<open>
  The grids never change shape: every write of the program is to a row and column in
  \<open>{0,1,2}\<close> of an existing face. \<open>wf_cube\<close> states that shape.
\<close>

definition wf_grid :: "grid \<Rightarrow> bool" where
  "wf_grid g = (length g = 3 \<and> list_all (\<lambda>row. length row = 3) g)"

definition wf_cube :: "cube \<Rightarrow> bool" where
  "wf_cube c = list_all (\<lambda>face. wf_grid (c face)) faceKeys"

text \<open>
  \<open>cell c f r k\<close> reads \<open>this.cube3D[f][r][k]\<close>; \<open>put f r k v\<close> is the assignment
  \<open>this.cube3D[f][r][k] = v\<close>; \<open>copy f r k g i j\<close> is
  \<open>this.cube3D[f][r][k] = this.cube3D[g][i][j]\<close>, read in the state the assignment runs in.
  \<open>seq\<close> runs a block of assignments in the order written. Every index the program
  writes is a literal or a loop counter in \<open>{0,1,2}\<close>, so on a cube of the 3x3 shape each
  read and write is in range; the laws below are stated for such cubes.
\<close>

definition cell :: "cube \<Rightarrow> face \<Rightarrow> nat \<Rightarrow> nat \<Rightarrow> color" where
  "cell c f r k = c f ! r ! k"

definition put :: "face \<Rightarrow> nat \<Rightarrow> nat \<Rightarrow> color \<Rightarrow> cube \<Rightarrow> cube" where
  "put f r k v c = c(f := (c f)[r := (c f ! r)[k := v]])"

definition copy :: "face \<Rightarrow> nat \<Rightarrow> nat \<Rightarrow> face \<Rightarrow> nat \<Rightarrow> nat \<Rightarrow> cube \<Rightarrow> cube" where
  "copy f r k g i j c = put f r k (cell c g i j) c"

definition seq :: "(cube \<Rightarrow> cube) list \<Rightarrow> cube \<Rightarrow> cube" where
  "seq steps c = fold (\<lambda>step s. step s) steps c"

section \<open>The move engine\<close>

text \<open>
  \<open>rotateFaceClockwise\<close> and \<open>rotateFaceCounterClockwise\<close> take a deep copy \<open>temp\<close> of the
  face and rewrite its nine stickers from it. Each of the twelve quarter turns rotates its
  own face, saves three stickers in \<open>temp\<close> and shifts the band with twelve assignments.
\<close>

definition rotateFaceClockwise :: "face \<Rightarrow> cube \<Rightarrow> cube" where
  "rotateFaceClockwise face c =
     (let temp = c face in
      seq [put face 0 0 (temp ! 2 ! 0),
           put face 0 1 (temp ! 1 ! 0),
           put face 0 2 (temp ! 0 ! 0),
           put face 1 0 (temp ! 2 ! 1),
           put face 1 1 (temp ! 1 ! 1),
           put face 1 2 (temp ! 0 ! 1),
           put face 2 0 (temp ! 2 ! 2),
           put face 2 1 (temp ! 1 ! 2),
           put face 2 2 (temp ! 0 ! 2)] c)"

definition rotateFaceCounterClockwise :: "face \<Rightarrow> cube \<Rightarrow> cube" where
  "rotateFaceCounterClockwise face c =
     (let temp = c face in
      seq [put face 0 0 (temp ! 0 ! 2),
           put face 0 1 (temp ! 1 ! 2),
           put face 0 2 (temp ! 2 ! 2),
           put face 1 0 (temp ! 0 ! 1),
           put face 1 1 (temp ! 1 ! 1),
           put face 1 2 (temp ! 2 ! 1),
           put face 2 0 (temp ! 0 ! 0),
           put face 2 1 (temp ! 1 ! 0),
           put face 2 2 (temp ! 2 ! 0)] c)"

definition rotateR :: "cube \<Rightarrow> cube" where
  "rotateR c0 =
     (let c = rotateFaceClockwise R c0;
          temp = [cell c U 0 2, cell c U 1 2, cell c U 2 2] in
      seq [copy U 0 2 F 0 2,
           copy U 1 2 F 1 2,
           copy U 2 2 F 2 2,
           copy F 0 2 D 0 2,
           copy F 1 2 D 1 2,
           copy F 2 2 D 2 2,
           copy D 0 2 B 2 0,
           copy D 1 2 B 1 0,
           copy D 2 2 B 0 0,
           put B 0 0 (temp ! 2),
           put B 1 0 (temp ! 1),
           put B 2 0 (temp ! 0)] c)"

definition rotateRPrime :: "cube \<Rightarrow> cube" where
  "rotateRPrime c0 =
     (let c = rotateFaceCounterClockwise R c0;
          temp = [cell c U 0 2, cell c U 1 2, cell c U 2 2] in
      seq [copy U 0 2 B 2 0,
           copy U 1 2 B 1 0,
           copy U 2 2 B 0 0,
           copy B 0 0 D 2 2,
           copy B 1 0 D 1 2,
           copy B 2 0 D 0 2,
           copy D 0 2 F 0 2,
           copy D 1 2 F 1 2,
           copy D 2 2 F 2 2,
           put F 0 2 (temp ! 0),
           put F 1 2 (temp ! 1),
           put F 2 2 (temp ! 2)] c)"

definition rotateL :: "cube \<Rightarrow> cube" where
  "rotateL c0 =
     (let c = rotateFaceClockwise L c0;
          temp = [cell c U 0 0, cell c U 1 0, cell c U 2 0] in
      seq [copy U 0 0 B 2 2,
           copy U 1 0 B 1 2,
           copy U 2 0 B 0 2,
           copy B 0 2 D 2 0,
           copy B 1 2 D 1 0,
           copy B 2 2 D 0 0,
           copy D 0 0 F 0 0,
           copy D 1 0 F 1 0,
           copy D 2 0 F 2 0,
           put F 0 0 (temp ! 0),
           put F 1 0 (temp ! 1),
           put F 2 0 (temp ! 2)] c)"

definition rotateLPrime :: "cube \<Rightarrow> cube" where
  "rotateLPrime c0 =
     (let c = rotateFaceCounterClockwise L c0;
          temp = [cell c U 0 0, cell c U 1 0, cell c U 2 0] in
      seq [copy U 0 0 F 0 0,
           copy U 1 0 F 1 0,
           copy U 2 0 F 2 0,
           copy F 0 0 D 0 0,
           copy F 1 0 D 1 0,
           copy F 2 0 D 2 0,
           copy D 0 0 B 2 2,
           copy D 1 0 B 1 2,
           copy D 2 0 B 0 2,
           put B 0 2 (temp ! 2),
           put B 1 2 (temp ! 1),
           put B 2 2 (temp ! 0)] c)"

definition rotateU :: "cube \<Rightarrow> cube" where
  "rotateU c0 =
     (let c = rotateFaceClockwise U c0;
          temp = [cell c F 0 0, cell c F 0 1, cell c F 0 2] in
      seq [copy F 0 0 R 0 0,
           copy F 0 1 R 0 1,
           copy F 0 2 R 0 2,
           copy R 0 0 B 0 0,
           copy R 0 1 B 0 1,
           copy R 0 2 B 0 2,
           copy B 0 0 L 0 0,
           copy B 0 1 L 0 1,
           copy B 0 2 L 0 2,
           put L 0 0 (temp ! 0),
           put L 0 1 (temp ! 1),
           put L 0 2 (temp ! 2)] c)"

definition rotateUPrime :: "cube \<Rightarrow> cube" where
  "rotateUPrime c0 =
     (let c = rotateFaceCounterClockwise U c0;
          temp = [cell c F 0 0, cell c F 0 1, cell c F 0 2] in
      seq [copy F 0 0 L 0 0,
           copy F 0 1 L 0 1,
           copy F 0 2 L 0 2,
           copy L 0 0 B 0 0,
           copy L 0 1 B 0 1,
           copy L 0 2 B 0 2,
           copy B 0 0 R 0 0,
           copy B 0 1 R 0 1,
           copy B 0 2 R 0 2,
           put R 0 0 (temp ! 0),
           put R 0 1 (temp ! 1),
           put R 0 2 (temp ! 2)] c)"

definition rotateD :: "cube \<Rightarrow> cube" where
  "rotateD c0 =
     (let c = rotateFaceClockwise D c0;
          temp = [cell c F 2 0, cell c F 2 1, cell c F 2 2] in
      seq [copy F 2 0 L 2 0,
           copy F 2 1 L 2 1,
           copy F 2 2 L 2 2,
           copy L 2 0 B 2 0,
           copy L 2 1 B 2 1,
           copy L 2 2 B 2 2,
           copy B 2 0 R 2 0,
           copy B 2 1 R 2 1,
           copy B 2 2 R 2 2,
           put R 2 0 (temp ! 0),
           put R 2 1 (temp ! 1),
           put R 2 2 (temp ! 2)] c)"

definition rotateDPrime :: "cube \<Rightarrow> cube" where
  "rotateDPrime c0 =
     (let c = rotateFaceCounterClockwise D c0;
          temp = [cell c F 2 0, cell c F 2 1, cell c F 2 2] in
      seq [copy F 2 0 R 2 0,
           copy F 2 1 R 2 1,
           copy F 2 2 R 2 2,
           copy R 2 0 B 2 0,
           copy R 2 1 B 2 1,
           copy R 2 2 B 2 2,
           copy B 2 0 L 2 0,
           copy B 2 1 L 2 1,
           copy B 2 2 L 2 2,
           put L 2 0 (temp ! 0),
           put L 2 1 (temp ! 1),
           put L 2 2 (temp ! 2)] c)"

definition rotateF :: "cube \<Rightarrow> cube" where
  "rotateF c0 =
     (let c = rotateFaceClockwise F c0;
          temp = [cell c U 2 0, cell c U 2 1, cell c U 2 2] in
      seq [copy U 2 0 L 2 2,
           copy U 2 1 L 1 2,
           copy U 2 2 L 0 2,
           copy L 0 2 D 0 0,
           copy L 1 2 D 0 1,
           copy L 2 2 D 0 2,
           copy D 0 0 R 2 0,
           copy D 0 1 R 1 0,
           copy D 0 2 R 0 0,
           put R 0 0 (temp ! 0),
           put R 1 0 (temp ! 1),
           put R 2 0 (temp ! 2)] c)"

definition rotateFPrime :: "cube \<Rightarrow> cube" where
  "rotateFPrime c0 =
     (let c = rotateFaceCounterClockwise F c0;
          temp = [cell c U 2 0, cell c U 2 1, cell c U 2 2] in
      seq [copy U 2 0 R 0 0,
           copy U 2 1 R 1 0,
           copy U 2 2 R 2 0,
           copy R 0 0 D 0 2,
           copy R 1 0 D 0 1,
           copy R 2 0 D 0 0,
           copy D 0 0 L 0 2,
           copy D 0 1 L 1 2,
           copy D 0 2 L 2 2,
           put L 0 2 (temp ! 2),
           put L 1 2 (temp ! 1),
           put L 2 2 (temp ! 0)] c)"

definition rotateB :: "cube \<Rightarrow> cube" where
  "rotateB c0 =
     (let c = rotateFaceClockwise B c0;
          temp = [cell c U 0 0, cell c U 0 1, cell c U 0 2] in
      seq [copy U 0 0 R 0 2,
           copy U 0 1 R 1 2,
           copy U 0 2 R 2 2,
           copy R 0 2 D 2 2,
           copy R 1 2 D 2 1,
           copy R 2 2 D 2 0,
           copy D 2 0 L 0 0,
           copy D 2 1 L 1 0,
           copy D 2 2 L 2 0,
           put L 0 0 (temp ! 2),
           put L 1 0 (temp ! 1),
           put L 2 0 (temp ! 0)] c)"

definition rotateBPrime :: "cube \<Rightarrow> cube" where
  "rotateBPrime c0 =
     (let c = rotateFaceCounterClockwise B c0;
          temp = [cell c U 0 0, cell c U 0 1, cell c U 0 2] in
      seq [copy U 0 0 L 2 0,
           copy U 0 1 L 1 0,
           copy U 0 2 L 0 0,
           copy L 0 0 D 2 2,
           copy L 1 0 D 2 1,
           copy L 2 0 D 2 0,
           copy D 2 0 R 2 2,
           copy D 2 1 R 1 2,
           copy D 2 2 R 0 2,
           put R 0 2 (temp ! 0),
           put R 1 2 (temp ! 1),
           put R 2 2 (temp ! 2)] c)"


text \<open>
  \<open>performCubeMove\<close> is the \<open>switch\<close> over the move token; a token that matches no case
  leaves the cube as it is. The apostrophe of a counter-clockwise token is \<open>prime\<close>.
\<close>

abbreviation (input) prime :: string where
  "prime \<equiv> [CHR 0x27]"

definition performCubeMove :: "string \<Rightarrow> cube \<Rightarrow> cube" where
  "performCubeMove move c =
     (if move = ''R'' then rotateR c
      else if move = ''R'' @ prime then rotateRPrime c
      else if move = ''R2'' then rotateR (rotateR c)
      else if move = ''L'' then rotateL c
      else if move = ''L'' @ prime then rotateLPrime c
      else if move = ''L2'' then rotateL (rotateL c)
      else if move = ''U'' then rotateU c
      else if move = ''U'' @ prime then rotateUPrime c
      else if move = ''U2'' then rotateU (rotateU c)
      else if move = ''D'' then rotateD c
      else if move = ''D'' @ prime then rotateDPrime c
      else if move = ''D2'' then rotateD (rotateD c)
      else if move = ''F'' then rotateF c
      else if move = ''F'' @ prime then rotateFPrime c
      else if move = ''F2'' then rotateF (rotateF c)
      else if move = ''B'' then rotateB c
      else if move = ''B'' @ prime then rotateBPrime c
      else if move = ''B2'' then rotateB (rotateB c)
      else c)"

section \<open>Move notation\<close>

text \<open>
  \<open>CubeSolver.isValidMove\<close> tests the token against \<open>/^[RLUDFB][\'2]?$/\<close>: one face letter,
  then at most one of the apostrophe and \<open>2\<close>. \<open>CubeSolver.invertMove\<close> drops a final
  apostrophe, keeps a token that ends in \<open>2\<close>, and appends an apostrophe to any other.
\<close>

definition isValidMove :: "string \<Rightarrow> bool" where
  "isValidMove move =
     (case move of
        [x] \<Rightarrow> x \<in> set ''RLUDFB''
      | [x, y] \<Rightarrow> x \<in> set ''RLUDFB'' \<and> (y = CHR 0x27 \<or> y = CHR ''2'')
      | _ \<Rightarrow> False)"

definition endsWith :: "string \<Rightarrow> char \<Rightarrow> bool" where
  "endsWith s x = (s \<noteq> [] \<and> last s = x)"

definition invertMove :: "string \<Rightarrow> string" where
  "invertMove move =
     (if endsWith move (CHR 0x27) then butlast move
      else if endsWith move (CHR ''2'') then move
      else move @ prime)"

section \<open>The solution player\<close>

text \<open>
  The fields of \<open>RubikCubeSolver\<close> that the player and the editor read and write. The page
  (the DOM), the animation classes and the timer handle \<open>playInterval\<close> are not part of the
  state; \<open>isPlaying\<close> stands for the running timer. JavaScript numbers that hold a step
  index are integers.
\<close>

record solver =
  cube :: cube
  cube3D :: cube
  solutionSteps :: "string list"
  currentStep :: int
  isPlaying :: bool

text \<open>\<open>copyTo3DCube\<close>: \<open>this.cube3D = JSON.parse(JSON.stringify(this.cube))\<close>, a deep copy.\<close>

definition copyTo3DCube :: "solver \<Rightarrow> solver" where
  "copyTo3DCube s = s\<lparr>cube3D := cube s\<rparr>"

definition stopPlaying :: "solver \<Rightarrow> solver" where
  "stopPlaying s = s\<lparr>isPlaying := False\<rparr>"

text \<open>\<open>updateStepDisplay\<close> redraws the step line; at the last step it also stops the timer.\<close>

definition updateStepDisplay :: "solver \<Rightarrow> solver" where
  "updateStepDisplay s =
     (let totalSteps = int (length (solutionSteps s)) in
      if currentStep s = 0 then s
      else if currentStep s = totalSteps then stopPlaying s
      else s)"

definition displaySolution :: "string list \<Rightarrow> solver \<Rightarrow> solver" where
  "displaySolution solution s0 =
     (let s = copyTo3DCube (s0\<lparr>solutionSteps := solution, currentStep := 0\<rparr>) in
      if length solution > 0 then updateStepDisplay s else s)"

definition clearSolution :: "solver \<Rightarrow> solver" where
  "clearSolution s0 =
     stopPlaying (copyTo3DCube (s0\<lparr>solutionSteps := [], currentStep := 0\<rparr>))"

text \<open>
  \<open>this.solutionSteps[i]\<close> is \<open>undefined\<close> outside the array, and \<open>performCubeMove(undefined)\<close>
  matches no case of the switch.
\<close>

definition stepAt :: "string list \<Rightarrow> int \<Rightarrow> string option" where
  "stepAt steps i = (if 0 \<le> i \<and> i < int (length steps) then Some (steps ! nat i) else None)"

definition performStep :: "string option \<Rightarrow> cube \<Rightarrow> cube" where
  "performStep move c = (case move of Some m \<Rightarrow> performCubeMove m c | None \<Rightarrow> c)"

text \<open>The loop \<open>for (let i = 0; i < stepNumber; i++)\<close> of \<open>goToStep\<close>, from index \<open>i\<close> on.\<close>

function replay :: "int \<Rightarrow> int \<Rightarrow> string list \<Rightarrow> cube \<Rightarrow> cube" where
  "replay i stepNumber steps c =
     (if i < stepNumber then replay (i + 1) stepNumber steps (performStep (stepAt steps i) c)
      else c)"
  by pat_completeness auto
termination
  by (relation "measure (\<lambda>(i, stepNumber, steps, c). nat (stepNumber - i))") auto

definition goToStep :: "int \<Rightarrow> solver \<Rightarrow> solver" where
  "goToStep stepNumber s0 =
     (if stepNumber \<ge> 0 \<and> stepNumber \<le> int (length (solutionSteps s0)) then
        let s = copyTo3DCube s0;
            s = s\<lparr>cube3D := replay 0 stepNumber (solutionSteps s) (cube3D s)\<rparr>;
            s = s\<lparr>currentStep := stepNumber\<rparr>
        in updateStepDisplay s
      else s0)"

definition previousStep :: "solver \<Rightarrow> solver" where
  "previousStep s =
     (if currentStep s > 0 then updateStepDisplay (s\<lparr>currentStep := currentStep s - 1\<rparr>)
      else s)"

definition nextStep :: "solver \<Rightarrow> solver" where
  "nextStep s0 =
     (if currentStep s0 < int (length (solutionSteps s0)) then
        let move = stepAt (solutionSteps s0) (currentStep s0);
            s = s0\<lparr>cube3D := performStep move (cube3D s0)\<rparr>;
            s = s\<lparr>currentStep := currentStep s + 1\<rparr>
        in updateStepDisplay s
      else s0)"

section \<open>Validation\<close>

text \<open>
  \<open>colorCounts\<close> is a plain object used as a dictionary from colour name to count; its
  entries are listed in insertion order. \<open>bump\<close> is
  \<open>colorCounts[color] = (colorCounts[color] || 0) + 1\<close> for a \<open>color\<close> among the six colour
  names. (For a name that \<open>Object.prototype\<close> defines, the read finds the inherited member
  and the sum is a string, and the write to \<open>'__proto__'\<close> creates no key; an array index
  is listed before the other keys. \<open>bump\<close> does not describe those names.)
\<close>

type_synonym counts = "(color \<times> nat) list"

definition bump :: "color \<Rightarrow> counts \<Rightarrow> counts" where
  "bump color colorCounts =
     (case map_of colorCounts color of
        None \<Rightarrow> colorCounts @ [(color, 1)]
      | Some n \<Rightarrow> map (\<lambda>(k, v). if k = color then (k, n + 1) else (k, v)) colorCounts)"

definition countCell :: "color \<Rightarrow> counts \<times> nat \<Rightarrow> counts \<times> nat" where
  "countCell color st =
     (if color \<noteq> ''empty'' then (bump color (fst st), snd st + 1) else st)"

text \<open>The three nested \<open>forEach\<close> over the faces, their rows and the stickers of a row.\<close>

definition countColors :: "cube \<Rightarrow> counts \<times> nat" where
  "countColors c =
     fold (\<lambda>face st. fold (\<lambda>row st. fold countCell row st) (c face) st) faceKeys ([], 0)"

text \<open>
  \<open>isValidCube\<close> returns \<open>{valid, message}\<close>. The three failure messages are told apart by
  the error's constructor, which carries the values the message interpolates.
\<close>

datatype validation_error =
    IncompleteError nat
  | ColorCountError color nat
  | ColorVarietyError nat

definition isValidCube :: "cube \<Rightarrow> validation_error + unit" where
  "isValidCube c =
     (let (colorCounts, totalSquares) = countColors c in
      if totalSquares \<noteq> 54 then Inl (IncompleteError totalSquares)
      else case find (\<lambda>(color, cnt). cnt \<noteq> 9) colorCounts of
             Some (color, cnt) \<Rightarrow> Inl (ColorCountError color cnt)
           | None \<Rightarrow>
               if length colorCounts \<noteq> 6 then Inl (ColorVarietyError (length colorCounts))
               else Inr ())"

section \<open>Facelet encoding\<close>

definition colorMap :: "color \<rightharpoonup> char" where
  "colorMap = map_of
     [(''white'', CHR ''U''), (''yellow'', CHR ''D''), (''red'', CHR ''R''),
      (''orange'', CHR ''L''), (''blue'', CHR ''F''), (''green'', CHR ''B'')]"

definition faceOrder :: "face list" where
  "faceOrder = [U, R, F, D, L, B]"

text \<open>\<open>throw new Error(`Invalid color '${color}' found in cube`)\<close>\<close>

datatype encode_error = InvalidColor color

text \<open>
  One sticker of \<open>toKociembaString\<close>: append the letter, or throw. Once thrown, the error
  passes through the rest of the traversal. The test \<open>color in this.colorMap\<close> is the
  lookup in \<open>colorMap\<close> for a \<open>color\<close> among the six colour names and \<open>'empty'\<close>. (For a
  name that \<open>Object.prototype\<close> defines, the test holds and the code appends the text
  of the inherited member; \<open>encodeCell\<close> does not describe those names.)
\<close>

definition encodeCell :: "color \<Rightarrow> encode_error + string \<Rightarrow> encode_error + string" where
  "encodeCell color acc =
     (case acc of
        Inl e \<Rightarrow> Inl e
      | Inr result \<Rightarrow>
          (case colorMap color of
             Some x \<Rightarrow> Inr (result @ [x])
           | None \<Rightarrow> Inl (InvalidColor color)))"

definition toKociembaString :: "cube \<Rightarrow> encode_error + string" where
  "toKociembaString c =
     fold (\<lambda>faceName acc. fold (\<lambda>row acc. fold encodeCell row acc) (c faceName) acc)
       faceOrder (Inr [])"

section \<open>Random sources\<close>

text \<open>
  \<open>Math.random()\<close> is a parameter \<open>rnd\<close>: \<open>rnd n\<close> is the value of the \<open>n\<close>-th call, a real
  number. The library promises a value in \<open>[0, 1)\<close>, which \<open>unit_interval\<close> states.
  \<open>Math.floor(Math.random() * k)\<close> is \<open>randomIndex\<close>.
\<close>

definition unit_interval :: "(nat \<Rightarrow> real) \<Rightarrow> bool" where
  "unit_interval rnd = (\<forall>n. 0 \<le> rnd n \<and> rnd n < 1)"

definition randomIndex :: "(nat \<Rightarrow> real) \<Rightarrow> nat \<Rightarrow> nat \<Rightarrow> nat" where
  "randomIndex rnd n k = nat \<lfloor>rnd n * real k\<rfloor>"

section \<open>The balanced random paint of the editor\<close>

definition colors :: "color list" where
  "colors = [''white'', ''yellow'', ''red'', ''orange'', ''blue'', ''green'']"

text \<open>Nine pushes of each colour, in the order of \<open>colors\<close>.\<close>

definition assignments :: "color list" where
  "assignments = concat (map (\<lambda>color. replicate 9 color) colors)"

text \<open>
  The shuffle \<open>for (let i = assignments.length - 1; i > 0; i--)\<close>, at index \<open>i\<close> with \<open>n\<close> calls
  of \<open>Math.random\<close> made so far: \<open>j = Math.floor(Math.random() * (i + 1))\<close>, then the swap
  \<open>[a[i], a[j]] = [a[j], a[i]]\<close>.
\<close>

fun shuffle :: "(nat \<Rightarrow> real) \<Rightarrow> nat \<Rightarrow> nat \<Rightarrow> color list \<Rightarrow> color list" where
  "shuffle rnd n 0 a = a"
| "shuffle rnd n (Suc i) a =
     (let j = randomIndex rnd n (Suc i + 1) in
      shuffle rnd (n + 1) i (a[Suc i := a ! j, j := a ! Suc i]))"

text \<open>
  The write-back walks \<open>Object.keys(this.cube)\<close>, rows and columns with a running \<open>index\<close>.
  The state of the walk is the cube and the index.
\<close>

definition paintCell :: "color list \<Rightarrow> face \<Rightarrow> nat \<Rightarrow> nat \<Rightarrow> cube \<times> nat \<Rightarrow> cube \<times> nat" where
  "paintCell a face row col st = (put face row col (a ! snd st) (fst st), snd st + 1)"

definition paint :: "color list \<Rightarrow> cube \<Rightarrow> cube \<times> nat" where
  "paint a c =
     fold (\<lambda>face st.
        fold (\<lambda>row st.
           fold (\<lambda>col st. paintCell a face row col st) [0..<3] st) [0..<3] st)
       faceKeys (c, 0)"

text \<open>
  \<open>scrambleCube\<close>. The request to \<open>/api/scramble\<close> only shows a message, whatever its outcome;
  the cube comes from the local shuffle.
\<close>

definition scrambleCube :: "(nat \<Rightarrow> real) \<Rightarrow> solver \<Rightarrow> solver" where
  "scrambleCube rnd s0 =
     (let a = shuffle rnd 0 (length assignments - 1) assignments;
          s = s0\<lparr>cube := fst (paint a (cube s0))\<rparr>
      in clearSolution (copyTo3DCube s))"

section \<open>Asking the solver\<close>

text \<open>
  What the request to \<open>/api/solve\<close> can come to: \<open>fetch\<close> or \<open>response.json()\<close> rejects
  (\<open>Unavailable\<close>), or a body arrives with its \<open>success\<close> flag and its \<open>solution\<close>. The
  server is a parameter: a function from the facelet string sent to the outcome.
\<close>

datatype api_response = Unavailable | Answer bool "string list"

datatype solve_error = EncodeFailed color | RequestFailed | SolveFailed

text \<open>The body of the \<open>try\<close> block: it returns the solution or throws.\<close>

definition requestSolution :: "(string \<Rightarrow> api_response) \<Rightarrow> cube \<Rightarrow> solve_error + string list" where
  "requestSolution api c =
     (case toKociembaString c of
        Inl (InvalidColor color) \<Rightarrow> Inl (EncodeFailed color)
      | Inr cubeString \<Rightarrow>
          (case api cubeString of
             Unavailable \<Rightarrow> Inl RequestFailed
           | Answer success solution \<Rightarrow> if success then Inr solution else Inl SolveFailed))"

definition mockMoves :: "string list" where
  "mockMoves =
     [''R'', ''U'', ''R'' @ prime, ''U'' @ prime, ''F'', ''R'', ''F'' @ prime, ''U2'',
      ''R'' @ prime, ''U'' @ prime, ''R'', ''U'', ''R'' @ prime, ''F'' @ prime, ''U'', ''F'']"

text \<open>
  The \<open>catch\<close> block: the first call of \<open>Math.random\<close> gives the length, each later one an
  entry of \<open>moves\<close>.
\<close>

definition mockSolution :: "(nat \<Rightarrow> real) \<Rightarrow> string list" where
  "mockSolution rnd =
     (let randomLength = randomIndex rnd 0 10 + 8 in
      map (\<lambda>i. mockMoves ! randomIndex rnd (i + 1) (length mockMoves)) [0..<randomLength])"

text \<open>
  \<open>generateSolution\<close> is an \<open>async\<close> function: its promise resolves with a list of moves
  (\<open>Inr\<close>) or rejects (\<open>Inl\<close>). The \<open>catch\<close> block covers the whole body.
\<close>

definition generateSolution ::
  "(nat \<Rightarrow> real) \<Rightarrow> (string \<Rightarrow> api_response) \<Rightarrow> cube \<Rightarrow> solve_error + string list" where
  "generateSolution rnd api c =
     (case requestSolution api c of
        Inr solution \<Rightarrow> Inr solution
      | Inl error \<Rightarrow> Inr (mockSolution rnd))"

section \<open>Concrete states\<close>

text \<open>
  The solved cube in the colours the constructor's comments give the faces, a freshly
  constructed solver, and fixed parameters for the random source and the server.
\<close>

definition faceColor :: "face \<Rightarrow> color" where
  "faceColor face =
     (case face of U \<Rightarrow> ''white'' | D \<Rightarrow> ''yellow'' | F \<Rightarrow> ''blue''
                 | B \<Rightarrow> ''green'' | L \<Rightarrow> ''orange'' | R \<Rightarrow> ''red'')"

definition solvedCube :: cube where
  "solvedCube = (\<lambda>face. replicate 3 (replicate 3 (faceColor face)))"

definition newSolver :: solver where
  "newSolver = \<lparr>cube = emptyCube, cube3D = emptyCube, solutionSteps = [],
                currentStep = 0, isPlaying = False\<rparr>"

definition solvedSolver :: solver where
  "solvedSolver = newSolver\<lparr>cube := solvedCube, cube3D := solvedCube\<rparr>"

text \<open>
  The solved cube with one sticker unpainted, and the solved cube with one yellow sticker
  painted white (ten white, eight yellow).
\<close>

definition oneMissing :: cube where
  "oneMissing = put U 0 0 ''empty'' solvedCube"

definition tenWhite :: cube where
  "tenWhite = put D 0 0 ''white'' solvedCube"

text \<open>
  The sequence \<open>R, U, F'\<close> loaded on the solved cube, and that state after three
  \<open>nextStep\<close>.
\<close>

definition threeMovesLoaded :: solver where
  "threeMovesLoaded = displaySolution [''R'', ''U'', ''F'' @ prime] solvedSolver"

definition threeStepsDone :: solver where
  "threeStepsDone = nextStep (nextStep (nextStep threeMovesLoaded))"

definition rndZero :: "nat \<Rightarrow> real" where
  "rndZero n = 0"

definition rndHalf :: "nat \<Rightarrow> real" where
  "rndHalf n = 1 / 2"

definition apiDown :: "string \<Rightarrow> api_response" where
  "apiDown request = Unavailable"

section \<open>Explicit cubes\<close>

text \<open>The cube with the six given grids, and all stickers of a cube in a given face order.\<close>

definition mk :: "grid \<Rightarrow> grid \<Rightarrow> grid \<Rightarrow> grid \<Rightarrow> grid \<Rightarrow> grid \<Rightarrow> cube" where
  "mk u d f b l r = (\<lambda>face. case face of U \<Rightarrow> u | D \<Rightarrow> d | F \<Rightarrow> f | B \<Rightarrow> b | L \<Rightarrow> l | R \<Rightarrow> r)"

definition stickers :: "face list \<Rightarrow> cube \<Rightarrow> color list" where
  "stickers order c = concat (map (\<lambda>face. concat (c face)) order)"

definition painted :: "cube \<Rightarrow> color list" where
  "painted c = filter (\<lambda>color. color \<noteq> ''empty'') (stickers faceKeys c)"

text \<open>
  Every sticker of the cube is \<open>'empty'\<close> or one of the six colour names of \<open>colors\<close>
  (which are the keys of \<open>colorMap\<close>).
\<close>

definition paletteCube :: "cube \<Rightarrow> bool" where
  "paletteCube c = list_all (\<lambda>color. color \<in> set (''empty'' # colors)) (stickers faceKeys c)"

text \<open>The case labels of the switch in \<open>performCubeMove\<close>.\<close>

definition moveTokens :: "string list" where
  "moveTokens =
     [''R'', ''R'' @ prime, ''R2'', ''L'', ''L'' @ prime, ''L2'',
      ''U'', ''U'' @ prime, ''U2'', ''D'', ''D'' @ prime, ''D2'',
      ''F'', ''F'' @ prime, ''F2'', ''B'', ''B'' @ prime, ''B2'']"

definition movesApplied :: "string list \<Rightarrow> cube \<Rightarrow> cube" where
  "movesApplied moves c = foldl (\<lambda>c move. performCubeMove move c) c moves"

section \<open>Explicit cubes: basic facts\<close>

lemma mk_app [simp]:
  "mk u d f b l r U = u" "mk u d f b l r D = d" "mk u d f b l r F = f"
  "mk u d f b l r B = b" "mk u d f b l r L = l" "mk u d f b l r R = r"
  by (simp_all add: mk_def)

lemma mk_upd:
  "(mk u d f b l r)(U := x) = mk x d f b l r"
  "(mk u d f b l r)(D := x) = mk u x f b l r"
  "(mk u d f b l r)(F := x) = mk u d x b l r"
  "(mk u d f b l r)(B := x) = mk u d f x l r"
  "(mk u d f b l r)(L := x) = mk u d f b x r"
  "(mk u d f b l r)(R := x) = mk u d f b l x"
  by (auto simp: mk_def fun_eq_iff split: face.splits)

lemma mk_eq_iff [simp]:
  "mk u d f b l r = mk u' d' f' b' l' r' \<longleftrightarrow>
     u = u' \<and> d = d' \<and> f = f' \<and> b = b' \<and> l = l' \<and> r = r'"
proof
  assume eq: "mk u d f b l r = mk u' d' f' b' l' r'"
  have "mk u d f b l r x = mk u' d' f' b' l' r' x" for x
    using eq by simp
  from this [of U] this [of D] this [of F] this [of B] this [of L] this [of R]
  show "u = u' \<and> d = d' \<and> f = f' \<and> b = b' \<and> l = l' \<and> r = r'"
    by simp
qed simp

lemma cube_is_mk: "c = mk (c U) (c D) (c F) (c B) (c L) (c R)"
  by (auto simp: mk_def fun_eq_iff split: face.splits)

lemma list3_explicit:
  assumes "length xs = 3"
  obtains x y z where "xs = [x, y, z]"
proof -
  from assms obtain x xs1 where 1: "xs = x # xs1" "length xs1 = 2"
    by (cases xs) auto
  from 1(2) obtain y xs2 where 2: "xs1 = y # xs2" "length xs2 = 1"
    by (cases xs1) auto
  from 2(2) obtain z where 3: "xs2 = [z]"
    by (cases xs2) auto
  from 1 2 3 that show thesis by simp
qed

lemma wf_grid_explicit:
  assumes "wf_grid g"
  obtains a0 a1 a2 a3 a4 a5 a6 a7 a8
  where "g = [[a0, a1, a2], [a3, a4, a5], [a6, a7, a8]]"
proof -
  from assms have len: "length g = 3" and rows: "list_all (\<lambda>row. length row = 3) g"
    by (simp_all add: wf_grid_def)
  from len obtain x y z where g: "g = [x, y, z]"
    by (rule list3_explicit)
  from rows g have "length x = 3" "length y = 3" "length z = 3"
    by simp_all
  then obtain a0 a1 a2 a3 a4 a5 a6 a7 a8
    where "x = [a0, a1, a2]" "y = [a3, a4, a5]" "z = [a6, a7, a8]"
    by (metis list3_explicit)
  with g that show thesis by simp
qed

lemma wf_cube_explicit:
  assumes "wf_cube c"
  obtains u0 u1 u2 u3 u4 u5 u6 u7 u8 d0 d1 d2 d3 d4 d5 d6 d7 d8 f0 f1 f2 f3 f4 f5 f6 f7 f8 b0 b1 b2 b3 b4 b5 b6 b7 b8 l0 l1 l2 l3 l4 l5 l6 l7 l8 r0 r1 r2 r3 r4 r5 r6 r7 r8
  where "c =
     (mk [[u0, u1, u2], [u3, u4, u5], [u6, u7, u8]]
     [[d0, d1, d2], [d3, d4, d5], [d6, d7, d8]]
     [[f0, f1, f2], [f3, f4, f5], [f6, f7, f8]]
     [[b0, b1, b2], [b3, b4, b5], [b6, b7, b8]]
     [[l0, l1, l2], [l3, l4, l5], [l6, l7, l8]]
     [[r0, r1, r2], [r3, r4, r5], [r6, r7, r8]])"
proof -
  from assms have wf: "wf_grid (c U)" "wf_grid (c D)" "wf_grid (c F)"
      "wf_grid (c B)" "wf_grid (c L)" "wf_grid (c R)"
    by (simp_all add: wf_cube_def faceKeys_def)
  from wf(1) obtain u0 u1 u2 u3 u4 u5 u6 u7 u8
    where u: "c U = [[u0, u1, u2], [u3, u4, u5], [u6, u7, u8]]"
    by (rule wf_grid_explicit)
  from wf(2) obtain d0 d1 d2 d3 d4 d5 d6 d7 d8
    where d: "c D = [[d0, d1, d2], [d3, d4, d5], [d6, d7, d8]]"
    by (rule wf_grid_explicit)
  from wf(3) obtain f0 f1 f2 f3 f4 f5 f6 f7 f8
    where f: "c F = [[f0, f1, f2], [f3, f4, f5], [f6, f7, f8]]"
    by (rule wf_grid_explicit)
  from wf(4) obtain b0 b1 b2 b3 b4 b5 b6 b7 b8
    where b: "c B = [[b0, b1, b2], [b3, b4, b5], [b6, b7, b8]]"
    by (rule wf_grid_explicit)
  from wf(5) obtain l0 l1 l2 l3 l4 l5 l6 l7 l8
    where l: "c L = [[l0, l1, l2], [l3, l4, l5], [l6, l7, l8]]"
    by (rule wf_grid_explicit)
  from wf(6) obtain r0 r1 r2 r3 r4 r5 r6 r7 r8
    where r: "c R = [[r0, r1, r2], [r3, r4, r5], [r6, r7, r8]]"
    by (rule wf_grid_explicit)
  show thesis
    by (rule that, subst cube_is_mk [of c], simp only: u d f b l r)
qed

lemma wf_cube_mk [simp]:
  "wf_cube (mk u d f b l r) \<longleftrightarrow>
     wf_grid u \<and> wf_grid d \<and> wf_grid f \<and> wf_grid b \<and> wf_grid l \<and> wf_grid r"
  by (simp add: wf_cube_def faceKeys_def)

lemma wf_grid_lists [simp]:
  "wf_grid [[a0, a1, a2], [a3, a4, a5], [a6, a7, a8]]"
  by (simp add: wf_grid_def)

lemma solvedCube_mk:
  "solvedCube =
     mk [[''white'', ''white'', ''white''], [''white'', ''white'', ''white''],
         [''white'', ''white'', ''white'']]
        [[''yellow'', ''yellow'', ''yellow''], [''yellow'', ''yellow'', ''yellow''],
         [''yellow'', ''yellow'', ''yellow'']]
        [[''blue'', ''blue'', ''blue''], [''blue'', ''blue'', ''blue''],
         [''blue'', ''blue'', ''blue'']]
        [[''green'', ''green'', ''green''], [''green'', ''green'', ''green''],
         [''green'', ''green'', ''green'']]
        [[''orange'', ''orange'', ''orange''], [''orange'', ''orange'', ''orange''],
         [''orange'', ''orange'', ''orange'']]
        [[''red'', ''red'', ''red''], [''red'', ''red'', ''red''],
         [''red'', ''red'', ''red'']]"
  by (subst cube_is_mk [of solvedCube])
     (simp add: solvedCube_def faceColor_def numeral_3_eq_3)

lemma wf_solvedCube: "wf_cube solvedCube"
  by (simp add: solvedCube_mk)

section \<open>Closed forms of the twelve quarter turns\<close>

lemma rotateFaceClockwise_grid:
  assumes "c face = [[a0, a1, a2], [a3, a4, a5], [a6, a7, a8]]"
  shows "rotateFaceClockwise face c =
         c(face := [[a6, a3, a0], [a7, a4, a1], [a8, a5, a2]])"
  by (simp add: rotateFaceClockwise_def seq_def put_def Let_def assms)

lemma rotateFaceCounterClockwise_grid:
  assumes "c face = [[a0, a1, a2], [a3, a4, a5], [a6, a7, a8]]"
  shows "rotateFaceCounterClockwise face c =
         c(face := [[a2, a5, a8], [a1, a4, a7], [a0, a3, a6]])"
  by (simp add: rotateFaceCounterClockwise_def seq_def put_def Let_def assms)

lemma rotateR_mk:
  "rotateR
     (mk [[u0, u1, u2], [u3, u4, u5], [u6, u7, u8]]
     [[d0, d1, d2], [d3, d4, d5], [d6, d7, d8]]
     [[f0, f1, f2], [f3, f4, f5], [f6, f7, f8]]
     [[b0, b1, b2], [b3, b4, b5], [b6, b7, b8]]
     [[l0, l1, l2], [l3, l4, l5], [l6, l7, l8]]
     [[r0, r1, r2], [r3, r4, r5], [r6, r7, r8]]) =
   (mk [[u0, u1, f2], [u3, u4, f5], [u6, u7, f8]]
   [[d0, d1, b6], [d3, d4, b3], [d6, d7, b0]]
   [[f0, f1, d2], [f3, f4, d5], [f6, f7, d8]]
   [[u8, b1, b2], [u5, b4, b5], [u2, b7, b8]]
   [[l0, l1, l2], [l3, l4, l5], [l6, l7, l8]]
   [[r6, r3, r0], [r7, r4, r1], [r8, r5, r2]])"
  unfolding rotateR_def Let_def
  by (simp add: rotateFaceClockwise_grid seq_def copy_def put_def cell_def mk_upd)

lemma rotateRPrime_mk:
  "rotateRPrime
     (mk [[u0, u1, u2], [u3, u4, u5], [u6, u7, u8]]
     [[d0, d1, d2], [d3, d4, d5], [d6, d7, d8]]
     [[f0, f1, f2], [f3, f4, f5], [f6, f7, f8]]
     [[b0, b1, b2], [b3, b4, b5], [b6, b7, b8]]
     [[l0, l1, l2], [l3, l4, l5], [l6, l7, l8]]
     [[r0, r1, r2], [r3, r4, r5], [r6, r7, r8]]) =
   (mk [[u0, u1, b6], [u3, u4, b3], [u6, u7, b0]]
   [[d0, d1, f2], [d3, d4, f5], [d6, d7, f8]]
   [[f0, f1, u2], [f3, f4, u5], [f6, f7, u8]]
   [[d8, b1, b2], [d5, b4, b5], [d2, b7, b8]]
   [[l0, l1, l2], [l3, l4, l5], [l6, l7, l8]]
   [[r2, r5, r8], [r1, r4, r7], [r0, r3, r6]])"
  unfolding rotateRPrime_def Let_def
  by (simp add: rotateFaceCounterClockwise_grid seq_def copy_def put_def cell_def mk_upd)

lemma rotateL_mk:
  "rotateL
     (mk [[u0, u1, u2], [u3, u4, u5], [u6, u7, u8]]
     [[d0, d1, d2], [d3, d4, d5], [d6, d7, d8]]
     [[f0, f1, f2], [f3, f4, f5], [f6, f7, f8]]
     [[b0, b1, b2], [b3, b4, b5], [b6, b7, b8]]
     [[l0, l1, l2], [l3, l4, l5], [l6, l7, l8]]
     [[r0, r1, r2], [r3, r4, r5], [r6, r7, r8]]) =
   (mk [[b8, u1, u2], [b5, u4, u5], [b2, u7, u8]]
   [[f0, d1, d2], [f3, d4, d5], [f6, d7, d8]]
   [[u0, f1, f2], [u3, f4, f5], [u6, f7, f8]]
   [[b0, b1, d6], [b3, b4, d3], [b6, b7, d0]]
   [[l6, l3, l0], [l7, l4, l1], [l8, l5, l2]]
   [[r0, r1, r2], [r3, r4, r5], [r6, r7, r8]])"
  unfolding rotateL_def Let_def
  by (simp add: rotateFaceClockwise_grid seq_def copy_def put_def cell_def mk_upd)

lemma rotateLPrime_mk:
  "rotateLPrime
     (mk [[u0, u1, u2], [u3, u4, u5], [u6, u7, u8]]
     [[d0, d1, d2], [d3, d4, d5], [d6, d7, d8]]
     [[f0, f1, f2], [f3, f4, f5], [f6, f7, f8]]
     [[b0, b1, b2], [b3, b4, b5], [b6, b7, b8]]
     [[l0, l1, l2], [l3, l4, l5], [l6, l7, l8]]
     [[r0, r1, r2], [r3, r4, r5], [r6, r7, r8]]) =
   (mk [[f0, u1, u2], [f3, u4, u5], [f6, u7, u8]]
   [[b8, d1, d2], [b5, d4, d5], [b2, d7, d8]]
   [[d0, f1, f2], [d3, f4, f5], [d6, f7, f8]]
   [[b0, b1, u6], [b3, b4, u3], [b6, b7, u0]]
   [[l2, l5, l8], [l1, l4, l7], [l0, l3, l6]]
   [[r0, r1, r2], [r3, r4, r5], [r6, r7, r8]])"
  unfolding rotateLPrime_def Let_def
  by (simp add: rotateFaceCounterClockwise_grid seq_def copy_def put_def cell_def mk_upd)

lemma rotateU_mk:
  "rotateU
     (mk [[u0, u1, u2], [u3, u4, u5], [u6, u7, u8]]
     [[d0, d1, d2], [d3, d4, d5], [d6, d7, d8]]
     [[f0, f1, f2], [f3, f4, f5], [f6, f7, f8]]
     [[b0, b1, b2], [b3, b4, b5], [b6, b7, b8]]
     [[l0, l1, l2], [l3, l4, l5], [l6, l7, l8]]
     [[r0, r1, r2], [r3, r4, r5], [r6, r7, r8]]) =
   (mk [[u6, u3, u0], [u7, u4, u1], [u8, u5, u2]]
   [[d0, d1, d2], [d3, d4, d5], [d6, d7, d8]]
   [[r0, r1, r2], [f3, f4, f5], [f6, f7, f8]]
   [[l0, l1, l2], [b3, b4, b5], [b6, b7, b8]]
   [[f0, f1, f2], [l3, l4, l5], [l6, l7, l8]]
   [[b0, b1, b2], [r3, r4, r5], [r6, r7, r8]])"
  unfolding rotateU_def Let_def
  by (simp add: rotateFaceClockwise_grid seq_def copy_def put_def cell_def mk_upd)

lemma rotateUPrime_mk:
  "rotateUPrime
     (mk [[u0, u1, u2], [u3, u4, u5], [u6, u7, u8]]
     [[d0, d1, d2], [d3, d4, d5], [d6, d7, d8]]
     [[f0, f1, f2], [f3, f4, f5], [f6, f7, f8]]
     [[b0, b1, b2], [b3, b4, b5], [b6, b7, b8]]
     [[l0, l1, l2], [l3, l4, l5], [l6, l7, l8]]
     [[r0, r1, r2], [r3, r4, r5], [r6, r7, r8]]) =
   (mk [[u2, u5, u8], [u1, u4, u7], [u0, u3, u6]]
   [[d0, d1, d2], [d3, d4, d5], [d6, d7, d8]]
   [[l0, l1, l2], [f3, f4, f5], [f6, f7, f8]]
   [[r0, r1, r2], [b3, b4, b5], [b6, b7, b8]]
   [[b0, b1, b2], [l3, l4, l5], [l6, l7, l8]]
   [[f0, f1, f2], [r3, r4, r5], [r6, r7, r8]])"
  unfolding rotateUPrime_def Let_def
  by (simp add: rotateFaceCounterClockwise_grid seq_def copy_def put_def cell_def mk_upd)

lemma rotateD_mk:
  "rotateD
     (mk [[u0, u1, u2], [u3, u4, u5], [u6, u7, u8]]
     [[d0, d1, d2], [d3, d4, d5], [d6, d7, d8]]
     [[f0, f1, f2], [f3, f4, f5], [f6, f7, f8]]
     [[b0, b1, b2], [b3, b4, b5], [b6, b7, b8]]
     [[l0, l1, l2], [l3, l4, l5], [l6, l7, l8]]
     [[r0, r1, r2], [r3, r4, r5], [r6, r7, r8]]) =
   (mk [[u0, u1, u2], [u3, u4, u5], [u6, u7, u8]]
   [[d6, d3, d0], [d7, d4, d1], [d8, d5, d2]]
   [[f0, f1, f2], [f3, f4, f5], [l6, l7, l8]]
   [[b0, b1, b2], [b3, b4, b5], [r6, r7, r8]]
   [[l0, l1, l2], [l3, l4, l5], [b6, b7, b8]]
   [[r0, r1, r2], [r3, r4, r5], [f6, f7, f8]])"
  unfolding rotateD_def Let_def
  by (simp add: rotateFaceClockwise_grid seq_def copy_def put_def cell_def mk_upd)

lemma rotateDPrime_mk:
  "rotateDPrime
     (mk [[u0, u1, u2], [u3, u4, u5], [u6, u7, u8]]
     [[d0, d1, d2], [d3, d4, d5], [d6, d7, d8]]
     [[f0, f1, f2], [f3, f4, f5], [f6, f7, f8]]
     [[b0, b1, b2], [b3, b4, b5], [b6, b7, b8]]
     [[l0, l1, l2], [l3, l4, l5], [l6, l7, l8]]
     [[r0, r1, r2], [r3, r4, r5], [r6, r7, r8]]) =
   (mk [[u0, u1, u2], [u3, u4, u5], [u6, u7, u8]]
   [[d2, d5, d8], [d1, d4, d7], [d0, d3, d6]]
   [[f0, f1, f2], [f3, f4, f5], [r6, r7, r8]]
   [[b0, b1, b2], [b3, b4, b5], [l6, l7, l8]]
   [[l0, l1, l2], [l3, l4, l5], [f6, f7, f8]]
   [[r0, r1, r2], [r3, r4, r5], [b6, b7, b8]])"
  unfolding rotateDPrime_def Let_def
  by (simp add: rotateFaceCounterClockwise_grid seq_def copy_def put_def cell_def mk_upd)

lemma rotateF_mk:
  "rotateF
     (mk [[u0, u1, u2], [u3, u4, u5], [u6, u7, u8]]
     [[d0, d1, d2], [d3, d4, d5], [d6, d7, d8]]
     [[f0, f1, f2], [f3, f4, f5], [f6, f7, f8]]
     [[b0, b1, b2], [b3, b4, b5], [b6, b7, b8]]
     [[l0, l1, l2], [l3, l4, l5], [l6, l7, l8]]
     [[r0, r1, r2], [r3, r4, r5], [r6, r7, r8]]) =
   (mk [[u0, u1, u2], [u3, u4, u5], [l8, l5, l2]]
   [[r6, r3, r0], [d3, d4, d5], [d6, d7, d8]]
   [[f6, f3, f0], [f7, f4, f1], [f8, f5, f2]]
   [[b0, b1, b2], [b3, b4, b5], [b6, b7, b8]]
   [[l0, l1, d0], [l3, l4, d1], [l6, l7, d2]]
   [[u6, r1, r2], [u7, r4, r5], [u8, r7, r8]])"
  unfolding rotateF_def Let_def
  by (simp add: rotateFaceClockwise_grid seq_def copy_def put_def cell_def mk_upd)

lemma rotateFPrime_mk:
  "rotateFPrime
     (mk [[u0, u1, u2], [u3, u4, u5], [u6, u7, u8]]
     [[d0, d1, d2], [d3, d4, d5], [d6, d7, d8]]
     [[f0, f1, f2], [f3, f4, f5], [f6, f7, f8]]
     [[b0, b1, b2], [b3, b4, b5], [b6, b7, b8]]
     [[l0, l1, l2], [l3, l4, l5], [l6, l7, l8]]
     [[r0, r1, r2], [r3, r4, r5], [r6, r7, r8]]) =
   (mk [[u0, u1, u2], [u3, u4, u5], [r0, r3, r6]]
   [[l2, l5, l8], [d3, d4, d5], [d6, d7, d8]]
   [[f2, f5, f8], [f1, f4, f7], [f0, f3, f6]]
   [[b0, b1, b2], [b3, b4, b5], [b6, b7, b8]]
   [[l0, l1, u8], [l3, l4, u7], [l6, l7, u6]]
   [[d2, r1, r2], [d1, r4, r5], [d0, r7, r8]])"
  unfolding rotateFPrime_def Let_def
  by (simp add: rotateFaceCounterClockwise_grid seq_def copy_def put_def cell_def mk_upd)

lemma rotateB_mk:
  "rotateB
     (mk [[u0, u1, u2], [u3, u4, u5], [u6, u7, u8]]
     [[d0, d1, d2], [d3, d4, d5], [d6, d7, d8]]
     [[f0, f1, f2], [f3, f4, f5], [f6, f7, f8]]
     [[b0, b1, b2], [b3, b4, b5], [b6, b7, b8]]
     [[l0, l1, l2], [l3, l4, l5], [l6, l7, l8]]
     [[r0, r1, r2], [r3, r4, r5], [r6, r7, r8]]) =
   (mk [[r2, r5, r8], [u3, u4, u5], [u6, u7, u8]]
   [[d0, d1, d2], [d3, d4, d5], [l0, l3, l6]]
   [[f0, f1, f2], [f3, f4, f5], [f6, f7, f8]]
   [[b6, b3, b0], [b7, b4, b1], [b8, b5, b2]]
   [[u2, l1, l2], [u1, l4, l5], [u0, l7, l8]]
   [[r0, r1, d8], [r3, r4, d7], [r6, r7, d6]])"
  unfolding rotateB_def Let_def
  by (simp add: rotateFaceClockwise_grid seq_def copy_def put_def cell_def mk_upd)

lemma rotateBPrime_mk:
  "rotateBPrime
     (mk [[u0, u1, u2], [u3, u4, u5], [u6, u7, u8]]
     [[d0, d1, d2], [d3, d4, d5], [d6, d7, d8]]
     [[f0, f1, f2], [f3, f4, f5], [f6, f7, f8]]
     [[b0, b1, b2], [b3, b4, b5], [b6, b7, b8]]
     [[l0, l1, l2], [l3, l4, l5], [l6, l7, l8]]
     [[r0, r1, r2], [r3, r4, r5], [r6, r7, r8]]) =
   (mk [[l6, l3, l0], [u3, u4, u5], [u6, u7, u8]]
   [[d0, d1, d2], [d3, d4, d5], [r8, r5, r2]]
   [[f0, f1, f2], [f3, f4, f5], [f6, f7, f8]]
   [[b2, b5, b8], [b1, b4, b7], [b0, b3, b6]]
   [[d8, l1, l2], [d7, l4, l5], [d6, l7, l8]]
   [[r0, r1, u0], [r3, r4, u1], [r6, r7, u2]])"
  unfolding rotateBPrime_def Let_def
  by (simp add: rotateFaceCounterClockwise_grid seq_def copy_def put_def cell_def mk_upd)

section \<open>Move tokens\<close>

lemma isValidMove_cases:
  assumes "isValidMove m"
  shows "m \<in> set moveTokens"
proof (cases m)
  case Nil
  with assms show ?thesis by (simp add: isValidMove_def)
next
  case (Cons x xs)
  note m = this
  show ?thesis
  proof (cases xs)
    case Nil
    with m assms show ?thesis by (auto simp: isValidMove_def moveTokens_def)
  next
    case (Cons y ys)
    with m assms have "ys = []"
      by (cases ys) (simp_all add: isValidMove_def)
    with Cons m assms show ?thesis by (auto simp: isValidMove_def moveTokens_def)
  qed
qed

lemma isValidMove_tokens: "list_all isValidMove moveTokens"
  by (simp add: isValidMove_def moveTokens_def)

lemma isValidMove_iff: "isValidMove m \<longleftrightarrow> m \<in> set moveTokens"
  using isValidMove_cases isValidMove_tokens by (auto simp: list_all_iff)

lemma performCubeMove_tokens:
  "performCubeMove ''R'' c = rotateR c"
  "performCubeMove [CHR ''R'', CHR 0x27] c = rotateRPrime c"
  "performCubeMove ''R2'' c = rotateR (rotateR c)"
  "performCubeMove ''L'' c = rotateL c"
  "performCubeMove [CHR ''L'', CHR 0x27] c = rotateLPrime c"
  "performCubeMove ''L2'' c = rotateL (rotateL c)"
  "performCubeMove ''U'' c = rotateU c"
  "performCubeMove [CHR ''U'', CHR 0x27] c = rotateUPrime c"
  "performCubeMove ''U2'' c = rotateU (rotateU c)"
  "performCubeMove ''D'' c = rotateD c"
  "performCubeMove [CHR ''D'', CHR 0x27] c = rotateDPrime c"
  "performCubeMove ''D2'' c = rotateD (rotateD c)"
  "performCubeMove ''F'' c = rotateF c"
  "performCubeMove [CHR ''F'', CHR 0x27] c = rotateFPrime c"
  "performCubeMove ''F2'' c = rotateF (rotateF c)"
  "performCubeMove ''B'' c = rotateB c"
  "performCubeMove [CHR ''B'', CHR 0x27] c = rotateBPrime c"
  "performCubeMove ''B2'' c = rotateB (rotateB c)"
  by (simp_all add: performCubeMove_def)

lemma invertMove_tokens:
  "invertMove [x] = (if x = CHR 0x27 then [] else if x = CHR ''2'' then [x] else [x] @ prime)"
  "invertMove [x, CHR 0x27] = [x]"
  "invertMove [x, CHR ''2''] = [x, CHR ''2'']"
  by (simp_all add: invertMove_def endsWith_def)

lemmas rotate_mk =
  rotateR_mk rotateRPrime_mk rotateL_mk rotateLPrime_mk rotateU_mk rotateUPrime_mk
  rotateD_mk rotateDPrime_mk rotateF_mk rotateFPrime_mk rotateB_mk rotateBPrime_mk

section \<open>Laws of the move engine\<close>

text \<open>
  C1. On every cube of the 3x3 shape and for every face letter \<open>f\<close> of
  \<open>U, D, F, B, L, R\<close>: \<open>performCubeMove\<close> with the token \<open>f\<close>, applied four times, gives
  the cube back, and with the token \<open>f2\<close>, applied twice, gives the cube back.
\<close>

theorem quarter_turn_order_four:
  assumes "wf_cube c" and "f \<in> set [''U'', ''D'', ''F'', ''B'', ''L'', ''R'']"
  shows "performCubeMove f (performCubeMove f (performCubeMove f (performCubeMove f c))) = c
       \<and> performCubeMove (f @ ''2'') (performCubeMove (f @ ''2'') c) = c"
proof -
  from assms(1) obtain u0 u1 u2 u3 u4 u5 u6 u7 u8 d0 d1 d2 d3 d4 d5 d6 d7 d8
      f0 f1 f2 f3 f4 f5 f6 f7 f8 b0 b1 b2 b3 b4 b5 b6 b7 b8
      l0 l1 l2 l3 l4 l5 l6 l7 l8 r0 r1 r2 r3 r4 r5 r6 r7 r8
    where c: "c = mk [[u0, u1, u2], [u3, u4, u5], [u6, u7, u8]]
                     [[d0, d1, d2], [d3, d4, d5], [d6, d7, d8]]
                     [[f0, f1, f2], [f3, f4, f5], [f6, f7, f8]]
                     [[b0, b1, b2], [b3, b4, b5], [b6, b7, b8]]
                     [[l0, l1, l2], [l3, l4, l5], [l6, l7, l8]]
                     [[r0, r1, r2], [r3, r4, r5], [r6, r7, r8]]"
    by (rule wf_cube_explicit)
  from assms(2) consider "f = ''U''" | "f = ''D''" | "f = ''F''"
    | "f = ''B''" | "f = ''L''" | "f = ''R''"
    by auto
  then show ?thesis
  proof cases
    case 1 then show ?thesis by (simp add: c performCubeMove_tokens rotateU_mk)
  next
    case 2 then show ?thesis by (simp add: c performCubeMove_tokens rotateD_mk)
  next
    case 3 then show ?thesis by (simp add: c performCubeMove_tokens rotateF_mk)
  next
    case 4 then show ?thesis by (simp add: c performCubeMove_tokens rotateB_mk)
  next
    case 5 then show ?thesis by (simp add: c performCubeMove_tokens rotateL_mk)
  next
    case 6 then show ?thesis by (simp add: c performCubeMove_tokens rotateR_mk)
  qed
qed

theorem quarter_turn_order_four_witness:
  "wf_cube (rotateF (rotateR solvedCube))
   \<and> ''U'' \<in> set [''U'', ''D'', ''F'', ''B'', ''L'', ''R'']
   \<and> performCubeMove ''U'' (performCubeMove ''U'' (performCubeMove ''U''
        (performCubeMove ''U'' (rotateF (rotateR solvedCube))))) = rotateF (rotateR solvedCube)
   \<and> performCubeMove ''U2'' (performCubeMove ''U2'' (rotateF (rotateR solvedCube)))
       = rotateF (rotateR solvedCube)
   \<and> performCubeMove ''U'' (rotateF (rotateR solvedCube)) \<noteq> rotateF (rotateR solvedCube)"
proof -
  have wf: "wf_cube (rotateF (rotateR solvedCube))"
    by (simp add: solvedCube_mk rotate_mk)
  have mem: "''U'' \<in> set [''U'', ''D'', ''F'', ''B'', ''L'', ''R'']"
    by simp
  have moved: "performCubeMove ''U'' (rotateF (rotateR solvedCube)) \<noteq> rotateF (rotateR solvedCube)"
    by (simp add: performCubeMove_def solvedCube_mk rotate_mk)
  from quarter_turn_order_four [OF wf mem] wf mem moved show ?thesis
    by simp
qed

text \<open>
  \<open>invertMove\<close> on the 18 tokens: a clockwise quarter turn and the counter-clockwise one of
  the same face are sent to each other, a half turn to itself.
\<close>

lemma invertMove_on_tokens:
  assumes "x \<in> set ''RLUDFB''"
  shows "invertMove [x] = [x] @ prime"
    and "invertMove ([x] @ prime) = [x]"
    and "invertMove ([x] @ ''2'') = [x] @ ''2''"
  using assms by (auto simp: invertMove_tokens)

text \<open>
  For the 16 tokens of the faces \<open>R, L, U, D, F\<close> and for \<open>B2\<close>, the move followed by its
  inverse gives the cube back.
\<close>

lemma move_then_inverse_not_B:
  assumes "wf_cube c" and "isValidMove m" and "m \<noteq> ''B''" and "m \<noteq> ''B'' @ prime"
  shows "performCubeMove (invertMove m) (performCubeMove m c) = c"
proof -
  from assms(1) obtain u0 u1 u2 u3 u4 u5 u6 u7 u8 d0 d1 d2 d3 d4 d5 d6 d7 d8
      f0 f1 f2 f3 f4 f5 f6 f7 f8 b0 b1 b2 b3 b4 b5 b6 b7 b8
      l0 l1 l2 l3 l4 l5 l6 l7 l8 r0 r1 r2 r3 r4 r5 r6 r7 r8
    where c: "c = mk [[u0, u1, u2], [u3, u4, u5], [u6, u7, u8]]
                     [[d0, d1, d2], [d3, d4, d5], [d6, d7, d8]]
                     [[f0, f1, f2], [f3, f4, f5], [f6, f7, f8]]
                     [[b0, b1, b2], [b3, b4, b5], [b6, b7, b8]]
                     [[l0, l1, l2], [l3, l4, l5], [l6, l7, l8]]
                     [[r0, r1, r2], [r3, r4, r5], [r6, r7, r8]]"
    by (rule wf_cube_explicit)
  have "\<forall>m \<in> set moveTokens. m \<noteq> ''B'' \<longrightarrow> m \<noteq> ''B'' @ prime \<longrightarrow>
          performCubeMove (invertMove m) (performCubeMove m c) = c"
    unfolding c moveTokens_def
    by (simp add: invertMove_tokens performCubeMove_tokens rotate_mk)
  moreover from assms(2) have "m \<in> set moveTokens"
    by (rule isValidMove_cases)
  ultimately show ?thesis
    using assms(3,4) by blast
qed

text \<open>
  C2. The claim: for every cube and every token \<open>m\<close> that \<open>isValidMove\<close> accepts,
  \<open>performCubeMove m\<close> followed by \<open>performCubeMove (invertMove m)\<close> gives the cube back.
  It fails for the back face. \<open>rotateB\<close> moves the left column to the bottom row of \<open>D\<close> in
  the same order (\<open>D[2][0] = L[0][0]\<close>), and \<open>rotateBPrime\<close> moves it back reversed
  (\<open>L[0][0] = D[2][2]\<close>). On the solved cube after a \<open>U\<close> turn, whose left column reads
  blue, orange, orange, the token \<open>B\<close> followed by its inverse \<open>B'\<close> leaves that column as
  orange, orange, blue.
\<close>

theorem back_turn_inverse_mismatch:
  "wf_cube (rotateU solvedCube) \<and> isValidMove ''B'' \<and> invertMove ''B'' = ''B'' @ prime
   \<and> performCubeMove (invertMove ''B'') (performCubeMove ''B'' (rotateU solvedCube))
       \<noteq> rotateU solvedCube
   \<and> [cell (rotateU solvedCube) L 0 0, cell (rotateU solvedCube) L 1 0,
       cell (rotateU solvedCube) L 2 0] = [''blue'', ''orange'', ''orange'']
   \<and> [cell (performCubeMove (''B'' @ prime) (performCubeMove ''B'' (rotateU solvedCube))) L 0 0,
       cell (performCubeMove (''B'' @ prime) (performCubeMove ''B'' (rotateU solvedCube))) L 1 0,
       cell (performCubeMove (''B'' @ prime) (performCubeMove ''B'' (rotateU solvedCube))) L 2 0]
       = [''orange'', ''orange'', ''blue'']"
  by (simp add: isValidMove_def invertMove_tokens performCubeMove_tokens cell_def
        solvedCube_mk rotate_mk)

text \<open>
  C9. On every cube of the 3x3 shape, for every one of the 18 tokens and every face:
  \<open>performCubeMove\<close> leaves the centre sticker (row 1, column 1) of the face as it was.
\<close>

theorem centres_fixed:
  assumes "wf_cube c" and "isValidMove m"
  shows "cell (performCubeMove m c) face 1 1 = cell c face 1 1"
proof -
  from assms(1) obtain u0 u1 u2 u3 u4 u5 u6 u7 u8 d0 d1 d2 d3 d4 d5 d6 d7 d8
      f0 f1 f2 f3 f4 f5 f6 f7 f8 b0 b1 b2 b3 b4 b5 b6 b7 b8
      l0 l1 l2 l3 l4 l5 l6 l7 l8 r0 r1 r2 r3 r4 r5 r6 r7 r8
    where c: "c = mk [[u0, u1, u2], [u3, u4, u5], [u6, u7, u8]]
                     [[d0, d1, d2], [d3, d4, d5], [d6, d7, d8]]
                     [[f0, f1, f2], [f3, f4, f5], [f6, f7, f8]]
                     [[b0, b1, b2], [b3, b4, b5], [b6, b7, b8]]
                     [[l0, l1, l2], [l3, l4, l5], [l6, l7, l8]]
                     [[r0, r1, r2], [r3, r4, r5], [r6, r7, r8]]"
    by (rule wf_cube_explicit)
  have "\<forall>m \<in> set moveTokens. \<forall>face \<in> set faceKeys.
          cell (performCubeMove m c) face 1 1 = cell c face 1 1"
    unfolding c moveTokens_def faceKeys_def
    by (simp add: cell_def performCubeMove_tokens rotate_mk)
  moreover from assms(2) have "m \<in> set moveTokens"
    by (rule isValidMove_cases)
  moreover have "face \<in> set faceKeys"
    by (cases face) (simp_all add: faceKeys_def)
  ultimately show ?thesis
    by blast
qed

theorem centres_fixed_witness:
  "wf_cube (rotateF (rotateR solvedCube)) \<and> isValidMove ''D2''
   \<and> cell (performCubeMove ''D2'' (rotateF (rotateR solvedCube))) D 1 1
       = cell (rotateF (rotateR solvedCube)) D 1 1
   \<and> cell (rotateF (rotateR solvedCube)) D 1 1 = ''yellow''"
proof -
  have wf: "wf_cube (rotateF (rotateR solvedCube))"
    by (simp add: solvedCube_mk rotate_mk)
  have ok: "isValidMove ''D2''"
    by (simp add: isValidMove_def)
  have yellow: "cell (rotateF (rotateR solvedCube)) D 1 1 = ''yellow''"
    by (simp add: cell_def solvedCube_mk rotate_mk)
  from centres_fixed [OF wf ok, of D] wf ok yellow show ?thesis
    by simp
qed

section \<open>The solution player\<close>

lemma movesApplied_Cons [simp]:
  "movesApplied (m # ms) c = movesApplied ms (performCubeMove m c)"
  by (simp add: movesApplied_def)

lemma movesApplied_Nil [simp]: "movesApplied [] c = c"
  by (simp add: movesApplied_def)

text \<open>The loop of \<open>goToStep\<close> from index \<open>i\<close> applies the steps \<open>i, \<dots>, stepNumber - 1\<close> in order.\<close>

lemma replay_eq:
  assumes "0 \<le> i" and "i \<le> n" and "n \<le> int (length steps)"
  shows "replay i n steps c = movesApplied (take (nat (n - i)) (drop (nat i) steps)) c"
  using assms
proof (induction i n steps c rule: replay.induct)
  case (1 i n steps c)
  show ?case
  proof (cases "i < n")
    case False
    with "1.prems" have "n - i = 0" by simp
    with False show ?thesis by (simp add: replay.simps [of i n])
  next
    case True
    with "1.prems" have inb: "nat i < length steps" by linarith
    from True "1.prems" have step: "stepAt steps i = Some (steps ! nat i)"
      by (simp add: stepAt_def)
    from True "1.prems"
    have IH: "replay (i + 1) n steps (performStep (stepAt steps i) c) =
              movesApplied (take (nat (n - (i + 1))) (drop (nat (i + 1)) steps))
                (performStep (stepAt steps i) c)"
      by (intro "1.IH") simp_all
    from True "1.prems" have cnt: "nat (n - i) = Suc (nat (n - (i + 1)))"
      by linarith
    from "1.prems" have idx: "nat (i + 1) = Suc (nat i)"
      by linarith
    have "take (nat (n - i)) (drop (nat i) steps) =
          steps ! nat i # take (nat (n - (i + 1))) (drop (nat (i + 1)) steps)"
      by (simp add: cnt idx Cons_nth_drop_Suc [OF inb, symmetric])
    with True IH step show ?thesis
      by (simp add: replay.simps [of i n] performStep_def)
  qed
qed

lemma cube3D_updateStepDisplay [simp]: "cube3D (updateStepDisplay s) = cube3D s"
  by (simp add: updateStepDisplay_def stopPlaying_def Let_def)

lemma currentStep_updateStepDisplay [simp]: "currentStep (updateStepDisplay s) = currentStep s"
  by (simp add: updateStepDisplay_def stopPlaying_def Let_def)

lemma cube_updateStepDisplay [simp]: "cube (updateStepDisplay s) = cube s"
  by (simp add: updateStepDisplay_def stopPlaying_def Let_def)

lemma solutionSteps_updateStepDisplay [simp]:
  "solutionSteps (updateStepDisplay s) = solutionSteps s"
  by (simp add: updateStepDisplay_def stopPlaying_def Let_def)

text \<open>\<open>previousStep\<close> never writes \<open>this.cube3D\<close>.\<close>

lemma cube3D_previousStep: "cube3D (previousStep s) = cube3D s"
  by (simp add: previousStep_def)

lemma currentStep_previousStep:
  "currentStep (previousStep s) = (if currentStep s > 0 then currentStep s - 1 else currentStep s)"
  by (simp add: previousStep_def)

text \<open>\<open>nextStep\<close> below the end applies the step under the cursor and moves the cursor on.\<close>

lemma nextStep_below_end:
  assumes "0 \<le> currentStep s" and "currentStep s < int (length (solutionSteps s))"
  shows "cube3D (nextStep s) =
           performCubeMove (solutionSteps s ! nat (currentStep s)) (cube3D s)"
    and "currentStep (nextStep s) = currentStep s + 1"
    and "solutionSteps (nextStep s) = solutionSteps s"
    and "cube (nextStep s) = cube s"
  using assms by (simp_all add: nextStep_def Let_def stepAt_def performStep_def)

text \<open>
  C7. For every solver state and every \<open>step\<close> with \<open>0 \<le> step \<le> N\<close>, where \<open>N\<close> is the
  length of the loaded sequence: \<open>goToStep step\<close> sets the cursor to \<open>step\<close> and leaves in
  \<open>cube3D\<close> the editor's cube with the first \<open>step\<close> moves applied in order by
  \<open>performCubeMove\<close>; \<open>goToStep 0\<close> leaves in \<open>cube3D\<close> the editor's cube itself. The editor's
  cube and the sequence stay as they were.
\<close>

theorem goToStep_replays_prefix:
  assumes "0 \<le> step" and "step \<le> int (length (solutionSteps s))"
  shows "currentStep (goToStep step s) = step
       \<and> cube3D (goToStep step s) = movesApplied (take (nat step) (solutionSteps s)) (cube s)
       \<and> cube3D (goToStep 0 s) = cube s
       \<and> cube (goToStep step s) = cube s
       \<and> solutionSteps (goToStep step s) = solutionSteps s"
proof -
  have "replay 0 step (solutionSteps s) (cube s) =
        movesApplied (take (nat (step - 0)) (drop (nat 0) (solutionSteps s))) (cube s)"
    using assms by (intro replay_eq) simp_all
  then have run: "replay 0 step (solutionSteps s) (cube s) =
                  movesApplied (take (nat step) (solutionSteps s)) (cube s)"
    by simp
  have zero: "replay 0 0 (solutionSteps s) (cube s) = cube s"
    by (simp add: replay.simps [of 0 0])
  from assms have cursor: "currentStep (goToStep step s) = step"
    and kept: "cube (goToStep step s) = cube s"
      "solutionSteps (goToStep step s) = solutionSteps s"
    by (simp_all add: goToStep_def copyTo3DCube_def Let_def)
  from assms have "cube3D (goToStep step s) = replay 0 step (solutionSteps s) (cube s)"
    by (simp add: goToStep_def copyTo3DCube_def Let_def)
  then have there: "cube3D (goToStep step s) =
                    movesApplied (take (nat step) (solutionSteps s)) (cube s)"
    by (simp only: run)
  have "cube3D (goToStep 0 s) = replay 0 0 (solutionSteps s) (cube s)"
    by (simp add: goToStep_def copyTo3DCube_def Let_def)
  then have start: "cube3D (goToStep 0 s) = cube s"
    by (simp only: zero)
  from cursor there start kept show ?thesis
    by (intro conjI)
qed

theorem goToStep_replays_prefix_witness:
  "(0::int) \<le> 2 \<and> 2 \<le> int (length (solutionSteps threeMovesLoaded))
   \<and> currentStep (goToStep 2 threeMovesLoaded) = 2
   \<and> cube3D (goToStep 2 threeMovesLoaded) = rotateU (rotateR solvedCube)
   \<and> cube3D (goToStep 0 threeMovesLoaded) = solvedCube"
proof -
  have steps: "solutionSteps threeMovesLoaded = [''R'', ''U'', ''F'' @ prime]"
    and cube: "cube threeMovesLoaded = solvedCube"
    by (simp_all add: threeMovesLoaded_def displaySolution_def copyTo3DCube_def
          solvedSolver_def newSolver_def Let_def)
  have le: "(0::int) \<le> 2" "2 \<le> int (length (solutionSteps threeMovesLoaded))"
    by (simp_all add: steps)
  from goToStep_replays_prefix [OF le] le show ?thesis
    by (simp add: steps cube numeral_2_eq_2 performCubeMove_tokens)
qed

text \<open>
  C6. The claim: from a cursor \<open>c\<close> with \<open>0 < c \<le> N\<close>, \<open>previousStep\<close> sets the cursor to
  \<open>c - 1\<close> and leaves in \<open>cube3D\<close> the editor's cube with the first \<open>c - 1\<close> moves applied.
  \<open>previousStep\<close> moves the cursor only. With \<open>R, U, F'\<close> loaded on the solved cube and three
  \<open>nextStep\<close>, the cursor is 3 and \<open>cube3D\<close> holds all three moves; after \<open>previousStep\<close> the
  cursor is 2 and \<open>cube3D\<close> still holds all three moves, which is not the cube after
  \<open>R, U\<close>, the state that \<open>goToStep 2\<close> produces.
\<close>

theorem previousStep_leaves_cube3D:
  "currentStep threeStepsDone = 3
   \<and> cube3D threeStepsDone = rotateFPrime (rotateU (rotateR solvedCube))
   \<and> currentStep (previousStep threeStepsDone) = 2
   \<and> cube3D (previousStep threeStepsDone) = rotateFPrime (rotateU (rotateR solvedCube))
   \<and> cube3D (goToStep 2 threeStepsDone) = rotateU (rotateR solvedCube)
   \<and> cube3D (previousStep threeStepsDone) \<noteq> rotateU (rotateR solvedCube)"
proof -
  have loaded: "threeMovesLoaded =
      \<lparr>cube = solvedCube, cube3D = solvedCube,
       solutionSteps = [''R'', ''U'', ''F'' @ prime], currentStep = 0, isPlaying = False\<rparr>"
    by (simp add: threeMovesLoaded_def displaySolution_def copyTo3DCube_def
          updateStepDisplay_def solvedSolver_def newSolver_def Let_def)
  have one: "nextStep threeMovesLoaded =
      \<lparr>cube = solvedCube, cube3D = rotateR solvedCube,
       solutionSteps = [''R'', ''U'', ''F'' @ prime], currentStep = 1, isPlaying = False\<rparr>"
    unfolding loaded
    by (simp add: nextStep_def updateStepDisplay_def stepAt_def performStep_def
          performCubeMove_tokens Let_def)
  have two: "nextStep (nextStep threeMovesLoaded) =
      \<lparr>cube = solvedCube, cube3D = rotateU (rotateR solvedCube),
       solutionSteps = [''R'', ''U'', ''F'' @ prime], currentStep = 2, isPlaying = False\<rparr>"
    unfolding one
    by (simp add: nextStep_def updateStepDisplay_def stepAt_def performStep_def
          performCubeMove_tokens Let_def)
  have three: "threeStepsDone =
      \<lparr>cube = solvedCube, cube3D = rotateFPrime (rotateU (rotateR solvedCube)),
       solutionSteps = [''R'', ''U'', ''F'' @ prime], currentStep = 3, isPlaying = False\<rparr>"
    unfolding threeStepsDone_def two
    by (simp add: nextStep_def updateStepDisplay_def stepAt_def
          performStep_def performCubeMove_tokens stopPlaying_def Let_def)
  have differ: "rotateFPrime (rotateU (rotateR solvedCube)) \<noteq> rotateU (rotateR solvedCube)"
    by (simp add: solvedCube_mk rotate_mk)
  have jump: "cube3D (goToStep 2 threeStepsDone) = rotateU (rotateR solvedCube)"
    unfolding three
    by (simp add: goToStep_def copyTo3DCube_def Let_def replay.simps [of _ 2]
          stepAt_def performStep_def performCubeMove_tokens)
  have prev: "previousStep threeStepsDone =
      \<lparr>cube = solvedCube, cube3D = rotateFPrime (rotateU (rotateR solvedCube)),
       solutionSteps = [''R'', ''U'', ''F'' @ prime], currentStep = 2, isPlaying = False\<rparr>"
    unfolding three
    by (simp add: previousStep_def updateStepDisplay_def Let_def)
  from differ jump show ?thesis
    unfolding prev by (simp add: three)
qed

section \<open>Counting colours\<close>

lemma fold_rows:
  "fold (\<lambda>row st. fold f row st) rows st = fold f (concat rows) st"
  by (induction rows arbitrary: st) simp_all

lemma fold_faces:
  "fold (\<lambda>face st. fold (\<lambda>row st. fold f row st) (c face) st) order st =
   fold f (stickers order c) st"
  by (induction order arbitrary: st) (simp_all add: stickers_def fold_rows)

text \<open>
  Counting a row bumps the dictionary once for each sticker that is not \<open>'empty'\<close>, in
  order, and adds their number to the total.
\<close>

lemma fold_countCell:
  "fold countCell xs (m, n) =
   (fold bump (filter (\<lambda>color. color \<noteq> ''empty'') xs) m,
    n + length (filter (\<lambda>color. color \<noteq> ''empty'') xs))"
  by (induction xs arbitrary: m n) (simp_all add: countCell_def)

lemma countColors_painted:
  "countColors c = (fold bump (painted c) [], length (painted c))"
  by (simp add: countColors_def fold_faces fold_countCell painted_def)

lemma map_of_bump:
  "map_of (bump color m) =
   (map_of m)(color \<mapsto> (case map_of m color of None \<Rightarrow> 1 | Some n \<Rightarrow> n + 1))"
proof (cases "map_of m color")
  case None
  then show ?thesis
    by (auto simp: bump_def fun_eq_iff map_add_def split: option.splits)
next
  case (Some n)
  have "map_of (map (\<lambda>(k, v). if k = color then (k, n + 1) else (k, v)) m) x =
        (if x = color then (if map_of m x = None then None else Some (n + 1))
         else map_of m x)" for x
    by (induction m) auto
  with Some show ?thesis
    by (auto simp: bump_def fun_eq_iff)
qed

lemma keys_bump:
  "map fst (bump color m) =
   (if color \<in> set (map fst m) then map fst m else map fst m @ [color])"
proof (cases "map_of m color")
  case None
  then have "color \<notin> set (map fst m)"
    by (simp add: map_of_eq_None_iff)
  with None show ?thesis by (simp add: bump_def)
next
  case (Some n)
  then have "color \<in> set (map fst m)"
    by (metis map_of_eq_None_iff option.distinct(1) set_map)
  moreover have "map fst (map (\<lambda>(k, v). if k = color then (k, n + 1) else (k, v)) m) = map fst m"
    by (induction m) auto
  ultimately show ?thesis using Some by (simp add: bump_def)
qed

lemma distinct_keys_bump:
  "distinct (map fst m) \<Longrightarrow> distinct (map fst (bump color m))"
  by (simp add: keys_bump)

lemma fold_bump_keys:
  "distinct (map fst m) \<Longrightarrow>
   distinct (map fst (fold bump xs m)) \<and>
   set (map fst (fold bump xs m)) = set (map fst m) \<union> set xs"
proof (induction xs arbitrary: m)
  case Nil
  then show ?case by simp
next
  case (Cons x xs)
  from Cons.prems have "distinct (map fst (bump x m))"
    by (rule distinct_keys_bump)
  from Cons.IH [OF this] show ?case
    by (auto simp: keys_bump split: if_splits)
qed

lemma fold_bump_value:
  "map_of (fold bump xs m) k =
   (if k \<in> set xs
    then Some (count_list xs k + (case map_of m k of None \<Rightarrow> 0 | Some n \<Rightarrow> n))
    else map_of m k)"
proof (induction xs arbitrary: m)
  case Nil
  then show ?case by simp
next
  case (Cons x xs)
  show ?case
    by (simp add: Cons.IH map_of_bump split: option.splits)
qed

text \<open>
  The dictionary built from no entries: its keys are the colours that occur, each once,
  and the value under a key is the number of its occurrences.
\<close>

lemma tally_keys:
  "distinct (map fst (fold bump xs []))" "set (map fst (fold bump xs [])) = set xs"
  using fold_bump_keys [of "[]" xs] by simp_all

lemma tally_entry:
  "(k, v) \<in> set (fold bump xs []) \<longleftrightarrow> k \<in> set xs \<and> v = count_list xs k"
proof -
  have "(k, v) \<in> set (fold bump xs []) \<longleftrightarrow> map_of (fold bump xs []) k = Some v"
    using tally_keys(1) [of xs] by (metis map_of_eq_Some_iff)
  then show ?thesis
    by (auto simp: fold_bump_value)
qed

lemma tally_length: "length (fold bump xs []) = card (set xs)"
proof -
  have "length (fold bump xs []) = length (map fst (fold bump xs []))"
    by simp
  also have "\<dots> = card (set (map fst (fold bump xs [])))"
    using tally_keys(1) [of xs] by (simp only: distinct_card)
  finally show ?thesis
    by (simp only: tally_keys(2))
qed

lemma tally_find_None:
  "find (\<lambda>(color, cnt). cnt \<noteq> 9) (fold bump xs []) = None
   \<longleftrightarrow> (\<forall>k \<in> set xs. count_list xs k = 9)"
proof -
  have "find (\<lambda>(color, cnt). cnt \<noteq> 9) (fold bump xs []) = None
        \<longleftrightarrow> (\<forall>(k, v) \<in> set (fold bump xs []). v = 9)"
    by (auto simp: find_None_iff)
  also have "\<dots> \<longleftrightarrow> (\<forall>k \<in> set xs. count_list xs k = 9)"
    by (auto simp: tally_entry)
  finally show ?thesis .
qed

lemma tally_find_Some:
  assumes "find (\<lambda>(color, cnt). cnt \<noteq> 9) (fold bump xs []) = Some (k, v)"
  shows "k \<in> set xs \<and> v = count_list xs k \<and> v \<noteq> 9"
proof -
  from assms have "(k, v) \<in> set (fold bump xs [])" and "v \<noteq> 9"
    by (auto simp: find_Some_iff in_set_conv_nth)
  then show ?thesis by (simp add: tally_entry)
qed

text \<open>Nine of every colour that occurs, on 54 stickers, are six colours.\<close>

lemma nine_each_six_colours:
  assumes "length xs = 54" and "\<forall>k \<in> set xs. count_list xs k = 9"
  shows "card (set xs) = 6"
proof -
  have "length xs = (\<Sum>k \<in> set xs. count_list xs k)"
    by (simp add: sum_count_set)
  also have "\<dots> = (\<Sum>k \<in> set xs. 9)"
    using assms(2) by (intro sum.cong) simp_all
  also have "\<dots> = 9 * card (set xs)"
    by simp
  finally show ?thesis using assms(1) by simp
qed

text \<open>\<open>isValidCube\<close> in terms of the painted stickers.\<close>

lemma isValidCube_painted:
  "isValidCube c =
     (if length (painted c) \<noteq> 54 then Inl (IncompleteError (length (painted c)))
      else case find (\<lambda>(color, cnt). cnt \<noteq> 9) (fold bump (painted c) []) of
             Some (color, cnt) \<Rightarrow> Inl (ColorCountError color cnt)
           | None \<Rightarrow>
               if card (set (painted c)) \<noteq> 6
               then Inl (ColorVarietyError (card (set (painted c))))
               else Inr ())"
  by (simp add: isValidCube_def countColors_painted tally_length cong: option.case_cong)

lemma isValidCube_valid:
  assumes "length (painted c) = 54" and "\<forall>k \<in> set (painted c). count_list (painted c) k = 9"
  shows "isValidCube c = Inr ()"
proof -
  from assms(2) have "find (\<lambda>(color, cnt). cnt \<noteq> 9) (fold bump (painted c) []) = None"
    by (simp only: tally_find_None)
  moreover from assms have "card (set (painted c)) = 6"
    by (rule nine_each_six_colours)
  ultimately show ?thesis
    using assms(1) by (simp add: isValidCube_painted)
qed

section \<open>Validation\<close>

lemma count_list_replicate [simp]:
  "count_list (replicate n x) y = (if x = y then n else 0)"
  by (induction n) auto

lemma painted_solvedCube:
  "painted solvedCube =
     replicate 9 ''white'' @ replicate 9 ''yellow'' @ replicate 9 ''blue'' @
     replicate 9 ''green'' @ replicate 9 ''orange'' @ replicate 9 ''red''"
  by (simp add: painted_def stickers_def faceKeys_def solvedCube_mk eval_nat_numeral)

lemma painted_oneMissing:
  "painted oneMissing =
     replicate 8 ''white'' @ replicate 9 ''yellow'' @ replicate 9 ''blue'' @
     replicate 9 ''green'' @ replicate 9 ''orange'' @ replicate 9 ''red''"
  by (simp add: painted_def stickers_def faceKeys_def oneMissing_def put_def mk_upd
        solvedCube_mk eval_nat_numeral)

lemma painted_tenWhite:
  "painted tenWhite =
     replicate 10 ''white'' @ replicate 8 ''yellow'' @ replicate 9 ''blue'' @
     replicate 9 ''green'' @ replicate 9 ''orange'' @ replicate 9 ''red''"
  by (simp add: painted_def stickers_def faceKeys_def tenWhite_def put_def mk_upd
        solvedCube_mk eval_nat_numeral)

text \<open>Cubes whose stickers are \<open>'empty'\<close> or colour names.\<close>

lemma set_stickers:
  "set (stickers order c) = (\<Union>face \<in> set order. \<Union>row \<in> set (c face). set row)"
  by (simp add: stickers_def)

lemma set_stickers_faceOrder: "set (stickers faceOrder c) = set (stickers faceKeys c)"
proof -
  have "set faceOrder = set faceKeys"
    by (auto simp: faceOrder_def faceKeys_def)
  then show ?thesis
    by (simp only: set_stickers)
qed

lemma paletteCube_painted:
  assumes "paletteCube c"
  shows "set (painted c) \<subseteq> set colors"
  using assms by (auto simp: paletteCube_def painted_def list_all_iff)

lemma card_colors: "card (set colors) = 6"
  by (simp add: colors_def)

lemma palette_unmapped:
  assumes "x \<in> set (''empty'' # colors)" and "x \<notin> dom colorMap"
  shows "x = ''empty''"
  using assms by (auto simp: colors_def colorMap_def)

lemma paletteCube_solvedCube: "paletteCube solvedCube"
  by (simp add: paletteCube_def stickers_def faceKeys_def solvedCube_mk colors_def)

lemma paletteCube_oneMissing: "paletteCube oneMissing"
  by (simp add: paletteCube_def stickers_def faceKeys_def oneMissing_def put_def mk_upd
        solvedCube_mk colors_def)

lemma paletteCube_tenWhite: "paletteCube tenWhite"
  by (simp add: paletteCube_def stickers_def faceKeys_def tenWhite_def put_def mk_upd
        solvedCube_mk colors_def)

text \<open>
  C3. On every cube whose stickers are \<open>'empty'\<close> or colour names, \<open>isValidCube\<close> reports
  the first failing check only. With \<open>painted c\<close> the stickers of the cube that are not
  \<open>'empty'\<close>: if their number is not 54, the result is the incomplete error with that
  number; otherwise, if some colour among them does not occur 9 times, the result is the
  colour-count error for such a colour, one of the six, with its number of occurrences;
  otherwise the check of the number of distinct colours, which comes last, finds 6 of
  them and the cube is valid.
\<close>

theorem isValidCube_first_failure:
  assumes "paletteCube c"
  shows "(length (painted c) \<noteq> 54 \<longrightarrow>
            isValidCube c = Inl (IncompleteError (length (painted c))))
       \<and> (length (painted c) = 54
            \<and> (\<exists>k \<in> set (painted c). count_list (painted c) k \<noteq> 9) \<longrightarrow>
            (\<exists>k \<in> set colors. k \<in> set (painted c) \<and> count_list (painted c) k \<noteq> 9
                \<and> isValidCube c = Inl (ColorCountError k (count_list (painted c) k))))
       \<and> (length (painted c) = 54
            \<and> (\<forall>k \<in> set (painted c). count_list (painted c) k = 9) \<longrightarrow>
            card (set (painted c)) = 6 \<and> isValidCube c = Inr ())"
proof -
  have incomplete: "isValidCube c = Inl (IncompleteError (length (painted c)))"
    if "length (painted c) \<noteq> 54"
    using that by (simp add: isValidCube_painted)
  have miscount: "\<exists>k \<in> set colors. k \<in> set (painted c) \<and> count_list (painted c) k \<noteq> 9
                    \<and> isValidCube c = Inl (ColorCountError k (count_list (painted c) k))"
    if a: "length (painted c) = 54
           \<and> (\<exists>k \<in> set (painted c). count_list (painted c) k \<noteq> 9)"
  proof -
    from a have "find (\<lambda>(color, cnt). cnt \<noteq> 9) (fold bump (painted c) []) \<noteq> None"
      by (simp only: tally_find_None) blast
    then obtain k v where
      found: "find (\<lambda>(color, cnt). cnt \<noteq> 9) (fold bump (painted c) []) = Some (k, v)"
      by (cases "find (\<lambda>(color, cnt). cnt \<noteq> 9) (fold bump (painted c) [])") auto
    from tally_find_Some [OF found]
    have k: "k \<in> set (painted c)" "v = count_list (painted c) k" "v \<noteq> 9"
      by simp_all
    from k(1) paletteCube_painted [OF assms] have "k \<in> set colors"
      by blast
    moreover from a found have "isValidCube c = Inl (ColorCountError k v)"
      by (simp add: isValidCube_painted)
    ultimately show ?thesis
      using k by blast
  qed
  have valid: "card (set (painted c)) = 6 \<and> isValidCube c = Inr ()"
    if a: "length (painted c) = 54
           \<and> (\<forall>k \<in> set (painted c). count_list (painted c) k = 9)"
  proof
    from a show "card (set (painted c)) = 6"
      by (intro nine_each_six_colours) simp_all
    from a show "isValidCube c = Inr ()"
      by (intro isValidCube_valid) simp_all
  qed
  from incomplete miscount valid show ?thesis
    by blast
qed

theorem isValidCube_first_failure_witness:
  "paletteCube solvedCube
   \<and> length (painted solvedCube) = 54
   \<and> list_all (\<lambda>k. count_list (painted solvedCube) k = 9) (painted solvedCube)
   \<and> card (set (painted solvedCube)) = 6
   \<and> isValidCube solvedCube = Inr ()
   \<and> paletteCube oneMissing
   \<and> length (painted oneMissing) = 53
   \<and> isValidCube oneMissing = Inl (IncompleteError 53)
   \<and> paletteCube tenWhite
   \<and> length (painted tenWhite) = 54
   \<and> count_list (painted tenWhite) ''white'' = 10
   \<and> count_list (painted tenWhite) ''yellow'' = 8
   \<and> (\<exists>k \<in> set colors.
         isValidCube tenWhite = Inl (ColorCountError k (count_list (painted tenWhite) k)))"
proof -
  have s1: "length (painted solvedCube) = 54"
    by (simp add: painted_solvedCube)
  have s2: "\<forall>k \<in> set (painted solvedCube). count_list (painted solvedCube) k = 9"
    by (simp add: painted_solvedCube)
  from isValidCube_first_failure [OF paletteCube_solvedCube] s1 s2
  have solved: "card (set (painted solvedCube)) = 6 \<and> isValidCube solvedCube = Inr ()"
    by blast
  have m1: "length (painted oneMissing) = 53"
    by (simp add: painted_oneMissing)
  with isValidCube_first_failure [OF paletteCube_oneMissing]
  have missing: "isValidCube oneMissing = Inl (IncompleteError 53)"
    by simp
  have t1: "length (painted tenWhite) = 54"
    by (simp add: painted_tenWhite)
  have t2: "count_list (painted tenWhite) ''white'' = 10"
    by (simp add: painted_tenWhite)
  have t3: "count_list (painted tenWhite) ''yellow'' = 8"
    by (simp add: painted_tenWhite)
  have t4: "''white'' \<in> set (painted tenWhite)"
    by (simp add: painted_tenWhite)
  from t2 t4 have "\<exists>k \<in> set (painted tenWhite). count_list (painted tenWhite) k \<noteq> 9"
    by (intro bexI [of _ "''white''"]) simp_all
  with isValidCube_first_failure [OF paletteCube_tenWhite] t1
  have ten: "\<exists>k \<in> set colors.
               isValidCube tenWhite = Inl (ColorCountError k (count_list (painted tenWhite) k))"
    by blast
  from s2 have s2': "list_all (\<lambda>k. count_list (painted solvedCube) k = 9) (painted solvedCube)"
    by (simp only: list_all_iff)
  from solved have s3: "card (set (painted solvedCube)) = 6"
    and s4: "isValidCube solvedCube = Inr ()"
    by simp_all
  from paletteCube_solvedCube s1 s2' s3 s4 paletteCube_oneMissing m1 missing
    paletteCube_tenWhite t1 t2 t3 ten
  show ?thesis
    by (intro conjI)
qed

text \<open>
  C10. On every cube whose stickers are \<open>'empty'\<close> or colour names: when \<open>isValidCube\<close>
  reaches its third check, that is, when the count of painted stickers is 54 and no entry
  of \<open>colorCounts\<close> differs from 9, \<open>colorCounts\<close> has exactly 6 keys, the six colour names,
  and the result is valid. So on such a cube the variety error is never returned.
\<close>

theorem variety_check_never_fails:
  assumes "paletteCube c"
  shows "(snd (countColors c) = 54
            \<and> find (\<lambda>(color, cnt). cnt \<noteq> 9) (fst (countColors c)) = None \<longrightarrow>
          length (fst (countColors c)) = 6
            \<and> set (map fst (fst (countColors c))) = set colors
            \<and> isValidCube c = Inr ())
       \<and> isValidCube c \<noteq> Inl (ColorVarietyError n)"
proof -
  have reached: "length (fst (countColors c)) = 6
                   \<and> set (map fst (fst (countColors c))) = set colors
                   \<and> isValidCube c = Inr ()"
    if a: "snd (countColors c) = 54
           \<and> find (\<lambda>(color, cnt). cnt \<noteq> 9) (fst (countColors c)) = None"
  proof -
    from a have len: "length (painted c) = 54"
      by (simp add: countColors_painted)
    from a have nine: "\<forall>k \<in> set (painted c). count_list (painted c) k = 9"
      by (simp add: countColors_painted tally_find_None)
    from len nine have six: "card (set (painted c)) = 6"
      by (rule nine_each_six_colours)
    then have keys: "length (fst (countColors c)) = 6"
      by (simp add: countColors_painted tally_length)
    from paletteCube_painted [OF assms] six have "set (painted c) = set colors"
      by (intro card_subset_eq) (simp_all add: card_colors)
    with tally_keys(2) [of "painted c"]
    have names: "set (map fst (fst (countColors c))) = set colors"
      by (simp only: countColors_painted fst_conv)
    from len nine have "isValidCube c = Inr ()"
      by (rule isValidCube_valid)
    with keys names show ?thesis
      by (intro conjI)
  qed
  have never: "isValidCube c \<noteq> Inl (ColorVarietyError n)"
  proof (cases "length (painted c) = 54")
    case False
    then show ?thesis by (simp add: isValidCube_painted)
  next
    case len: True
    show ?thesis
    proof (cases "find (\<lambda>(color, cnt). cnt \<noteq> 9) (fold bump (painted c) [])")
      case None
      then have "\<forall>k \<in> set (painted c). count_list (painted c) k = 9"
        by (simp only: tally_find_None)
      with len have "isValidCube c = Inr ()"
        by (rule isValidCube_valid)
      then show ?thesis by simp
    next
      case (Some entry)
      with len show ?thesis
        by (cases entry) (simp add: isValidCube_painted)
    qed
  qed
  from reached never show ?thesis
    by (intro conjI impI) simp_all
qed

theorem variety_check_never_fails_witness:
  "paletteCube solvedCube
   \<and> snd (countColors solvedCube) = 54
   \<and> find (\<lambda>(color, cnt). cnt \<noteq> 9) (fst (countColors solvedCube)) = None
   \<and> length (fst (countColors solvedCube)) = 6
   \<and> set (map fst (fst (countColors solvedCube))) = set colors
   \<and> isValidCube solvedCube = Inr ()"
proof -
  have h1: "snd (countColors solvedCube) = 54"
    by (simp add: countColors_painted painted_solvedCube)
  have "\<forall>k \<in> set (painted solvedCube). count_list (painted solvedCube) k = 9"
    by (simp add: painted_solvedCube)
  then have h2: "find (\<lambda>(color, cnt). cnt \<noteq> 9) (fst (countColors solvedCube)) = None"
    by (simp add: countColors_painted tally_find_None)
  from variety_check_never_fails [OF paletteCube_solvedCube] h1 h2
  have "length (fst (countColors solvedCube)) = 6
          \<and> set (map fst (fst (countColors solvedCube))) = set colors
          \<and> isValidCube solvedCube = Inr ()"
    by blast
  with paletteCube_solvedCube h1 h2 show ?thesis
    by (intro conjI) simp_all
qed

section \<open>Facelet encoding\<close>

lemma fold_encodeCell_Inl [simp]: "fold encodeCell xs (Inl e) = Inl e"
  by (induction xs) (simp_all add: encodeCell_def)

lemma fold_encodeCell_mapped:
  assumes "\<forall>x \<in> set xs. x \<in> dom colorMap"
  shows "fold encodeCell xs (Inr acc) = Inr (acc @ map (\<lambda>x. the (colorMap x)) xs)"
  using assms
proof (induction xs arbitrary: acc)
  case Nil
  then show ?case by simp
next
  case (Cons x xs)
  from Cons.prems obtain y where "colorMap x = Some y" by auto
  with Cons show ?case by (simp add: encodeCell_def)
qed

text \<open>The traversal throws at the first sticker without a letter, naming its colour.\<close>

lemma fold_encodeCell_unmapped:
  assumes "\<exists>x \<in> set xs. x \<notin> dom colorMap"
  shows "\<exists>col \<in> set xs. col \<notin> dom colorMap
           \<and> fold encodeCell xs (Inr acc) = Inl (InvalidColor col)"
  using assms
proof (induction xs arbitrary: acc)
  case Nil
  then show ?case by simp
next
  case (Cons x xs)
  show ?case
  proof (cases "colorMap x")
    case None
    then have "encodeCell x (Inr acc) = Inl (InvalidColor x)"
      by (simp add: encodeCell_def)
    with None show ?thesis by (auto simp: domIff)
  next
    case (Some y)
    then have step: "encodeCell x (Inr acc) = Inr (acc @ [y])"
      by (simp add: encodeCell_def)
    from Some Cons.prems have "\<exists>x \<in> set xs. x \<notin> dom colorMap" by auto
    from Cons.IH [OF this, of "acc @ [y]"] step show ?thesis
      by auto
  qed
qed

lemma toKociembaString_stickers:
  "toKociembaString c = fold encodeCell (stickers faceOrder c) (Inr [])"
  by (simp add: toKociembaString_def fold_faces)

lemma all_less_3: "(\<forall>i<3. P i) \<longleftrightarrow> P 0 \<and> P 1 \<and> P (2::nat)"
proof -
  have "i < 3 \<longleftrightarrow> i = 0 \<or> i = 1 \<or> i = 2" for i :: nat
    by arith
  then show ?thesis by auto
qed

lemma all_less_6: "(\<forall>i<6. P i) \<longleftrightarrow> P 0 \<and> P 1 \<and> P 2 \<and> P 3 \<and> P 4 \<and> P (5::nat)"
proof -
  have "i < 6 \<longleftrightarrow> i = 0 \<or> i = 1 \<or> i = 2 \<or> i = 3 \<or> i = 4 \<or> i = 5" for i :: nat
    by arith
  then show ?thesis by auto
qed

text \<open>The stickers in the order \<open>U, R, F, D, L, B\<close>, row by row, on a 3x3 cube.\<close>

lemma stickers_faceOrder_mk:
  "stickers faceOrder
     (mk [[u0, u1, u2], [u3, u4, u5], [u6, u7, u8]]
         [[d0, d1, d2], [d3, d4, d5], [d6, d7, d8]]
         [[f0, f1, f2], [f3, f4, f5], [f6, f7, f8]]
         [[b0, b1, b2], [b3, b4, b5], [b6, b7, b8]]
         [[l0, l1, l2], [l3, l4, l5], [l6, l7, l8]]
         [[r0, r1, r2], [r3, r4, r5], [r6, r7, r8]]) =
   [u0, u1, u2, u3, u4, u5, u6, u7, u8, r0, r1, r2, r3, r4, r5, r6, r7, r8, f0, f1, f2, f3,
    f4, f5, f6, f7, f8, d0, d1, d2, d3, d4, d5, d6, d7, d8, l0, l1, l2, l3, l4, l5, l6, l7,
    l8, b0, b1, b2, b3, b4, b5, b6, b7, b8]"
  by (simp add: stickers_def faceOrder_def)

lemma stickers_faceOrder_nth:
  assumes "wf_cube c"
  shows "length (stickers faceOrder c) = 54
       \<and> (\<forall>i<6. \<forall>r<3. \<forall>k<3.
            stickers faceOrder c ! (9 * i + 3 * r + k) = cell c (faceOrder ! i) r k)"
proof -
  from assms(1) obtain u0 u1 u2 u3 u4 u5 u6 u7 u8 d0 d1 d2 d3 d4 d5 d6 d7 d8
      f0 f1 f2 f3 f4 f5 f6 f7 f8 b0 b1 b2 b3 b4 b5 b6 b7 b8
      l0 l1 l2 l3 l4 l5 l6 l7 l8 r0 r1 r2 r3 r4 r5 r6 r7 r8
    where c: "c = mk [[u0, u1, u2], [u3, u4, u5], [u6, u7, u8]]
                     [[d0, d1, d2], [d3, d4, d5], [d6, d7, d8]]
                     [[f0, f1, f2], [f3, f4, f5], [f6, f7, f8]]
                     [[b0, b1, b2], [b3, b4, b5], [b6, b7, b8]]
                     [[l0, l1, l2], [l3, l4, l5], [l6, l7, l8]]
                     [[r0, r1, r2], [r3, r4, r5], [r6, r7, r8]]"
    by (rule wf_cube_explicit)
  show ?thesis
    unfolding c stickers_faceOrder_mk all_less_6 all_less_3
    by (simp add: cell_def faceOrder_def)
qed

lemma colorMap_values:
  "colorMap ''white'' = Some CHR ''U''" "colorMap ''yellow'' = Some CHR ''D''"
  "colorMap ''blue'' = Some CHR ''F''" "colorMap ''green'' = Some CHR ''B''"
  "colorMap ''orange'' = Some CHR ''L''" "colorMap ''red'' = Some CHR ''R''"
  "colorMap ''empty'' = None"
  by (simp_all add: colorMap_def)

text \<open>
  C5. On a cube of the 3x3 shape: if every sticker's colour has a letter in \<open>colorMap\<close>,
  \<open>toKociembaString\<close> returns the 54 letters of the stickers, face by face in the order
  \<open>U, R, F, D, L, B\<close> and row by row within a face: the letter at position
  \<open>9 i + 3 r + k\<close> is that of the sticker in row \<open>r\<close>, column \<open>k\<close> of the \<open>i\<close>-th face of the
  order. If the stickers are \<open>'empty'\<close> or colour names and some sticker's colour has no
  letter, it fails with the invalid-colour error naming a colour of the cube that has
  none, which is \<open>'empty'\<close>. \<open>colorMap\<close> sends white to \<open>U\<close>, yellow to \<open>D\<close>, blue to \<open>F\<close>,
  green to \<open>B\<close>, orange to \<open>L\<close>, red to \<open>R\<close>, and has no entry for \<open>'empty'\<close>.
\<close>

theorem toKociembaString_facelets:
  assumes "wf_cube c"
  shows "((\<forall>x \<in> set (stickers faceOrder c). x \<in> dom colorMap) \<longrightarrow>
            (\<exists>s. toKociembaString c = Inr s \<and> length s = 54
               \<and> s = map (\<lambda>x. the (colorMap x)) (stickers faceOrder c)
               \<and> (\<forall>i<6. \<forall>r<3. \<forall>k<3.
                     s ! (9 * i + 3 * r + k) = the (colorMap (cell c (faceOrder ! i) r k)))))
       \<and> (paletteCube c \<and> (\<exists>x \<in> set (stickers faceOrder c). x \<notin> dom colorMap) \<longrightarrow>
            (\<exists>col \<in> set (stickers faceOrder c). col \<notin> dom colorMap
               \<and> toKociembaString c = Inl (InvalidColor col))
            \<and> toKociembaString c = Inl (InvalidColor ''empty''))
       \<and> faceOrder = [U, R, F, D, L, B]
       \<and> colorMap ''white'' = Some CHR ''U'' \<and> colorMap ''yellow'' = Some CHR ''D''
       \<and> colorMap ''blue'' = Some CHR ''F'' \<and> colorMap ''green'' = Some CHR ''B''
       \<and> colorMap ''orange'' = Some CHR ''L'' \<and> colorMap ''red'' = Some CHR ''R''
       \<and> colorMap ''empty'' = None"
proof -
  from stickers_faceOrder_nth [OF assms]
  have len: "length (stickers faceOrder c) = 54"
    and at: "\<And>i r k. i < 6 \<Longrightarrow> r < 3 \<Longrightarrow> k < 3 \<Longrightarrow>
               stickers faceOrder c ! (9 * i + 3 * r + k) = cell c (faceOrder ! i) r k"
    by simp_all
  have good: "\<exists>s. toKociembaString c = Inr s \<and> length s = 54
               \<and> s = map (\<lambda>x. the (colorMap x)) (stickers faceOrder c)
               \<and> (\<forall>i<6. \<forall>r<3. \<forall>k<3.
                     s ! (9 * i + 3 * r + k) = the (colorMap (cell c (faceOrder ! i) r k)))"
    if all: "\<forall>x \<in> set (stickers faceOrder c). x \<in> dom colorMap"
  proof (intro exI conjI allI impI)
    show "toKociembaString c = Inr (map (\<lambda>x. the (colorMap x)) (stickers faceOrder c))"
      using fold_encodeCell_mapped [OF all, of "[]"] by (simp add: toKociembaString_stickers)
    show "length (map (\<lambda>x. the (colorMap x)) (stickers faceOrder c)) = 54"
      by (simp add: len)
    show "map (\<lambda>x. the (colorMap x)) (stickers faceOrder c)
          = map (\<lambda>x. the (colorMap x)) (stickers faceOrder c)" ..
    fix i r k :: nat
    assume b: "i < 6" "r < 3" "k < 3"
    then have "9 * i + 3 * r + k < length (stickers faceOrder c)"
      by (simp add: len)
    then show "map (\<lambda>x. the (colorMap x)) (stickers faceOrder c) ! (9 * i + 3 * r + k)
               = the (colorMap (cell c (faceOrder ! i) r k))"
      by (simp add: at [OF b])
  qed
  have bad: "(\<exists>col \<in> set (stickers faceOrder c). col \<notin> dom colorMap
                \<and> toKociembaString c = Inl (InvalidColor col))
             \<and> toKociembaString c = Inl (InvalidColor ''empty'')"
    if a: "paletteCube c \<and> (\<exists>x \<in> set (stickers faceOrder c). x \<notin> dom colorMap)"
  proof -
    from a have "\<exists>x \<in> set (stickers faceOrder c). x \<notin> dom colorMap" ..
    from fold_encodeCell_unmapped [OF this, of "[]"]
    obtain col where col: "col \<in> set (stickers faceOrder c)" "col \<notin> dom colorMap"
      and thrown: "toKociembaString c = Inl (InvalidColor col)"
      by (auto simp: toKociembaString_stickers)
    from a col(1) have "col \<in> set (''empty'' # colors)"
      by (simp add: paletteCube_def list_all_iff set_stickers_faceOrder)
    from this col(2) have "col = ''empty''"
      by (rule palette_unmapped)
    with col thrown show ?thesis
      by blast
  qed
  from good bad have
    "((\<forall>x \<in> set (stickers faceOrder c). x \<in> dom colorMap) \<longrightarrow>
        (\<exists>s. toKociembaString c = Inr s \<and> length s = 54
           \<and> s = map (\<lambda>x. the (colorMap x)) (stickers faceOrder c)
           \<and> (\<forall>i<6. \<forall>r<3. \<forall>k<3.
                 s ! (9 * i + 3 * r + k) = the (colorMap (cell c (faceOrder ! i) r k)))))
   \<and> (paletteCube c \<and> (\<exists>x \<in> set (stickers faceOrder c). x \<notin> dom colorMap) \<longrightarrow>
        (\<exists>col \<in> set (stickers faceOrder c). col \<notin> dom colorMap
           \<and> toKociembaString c = Inl (InvalidColor col))
        \<and> toKociembaString c = Inl (InvalidColor ''empty''))"
    by blast
  moreover have "faceOrder = [U, R, F, D, L, B]"
    by (simp add: faceOrder_def)
  ultimately show ?thesis
    using colorMap_values by (intro conjI) (erule conjunct1, erule conjunct2, assumption+)
qed

theorem toKociembaString_facelets_witness:
  "wf_cube solvedCube
   \<and> set (stickers faceOrder solvedCube) \<subseteq> dom colorMap
   \<and> toKociembaString solvedCube
       = Inr ''UUUUUUUUURRRRRRRRRFFFFFFFFFDDDDDDDDDLLLLLLLLLBBBBBBBBB''
   \<and> wf_cube oneMissing \<and> paletteCube oneMissing
   \<and> (\<exists>x \<in> set (stickers faceOrder oneMissing). x \<notin> dom colorMap)
   \<and> toKociembaString oneMissing = Inl (InvalidColor ''empty'')"
proof -
  have st: "stickers faceOrder solvedCube =
      replicate 9 ''white'' @ replicate 9 ''red'' @ replicate 9 ''blue'' @
      replicate 9 ''yellow'' @ replicate 9 ''orange'' @ replicate 9 ''green''"
    by (simp add: solvedCube_mk stickers_faceOrder_mk eval_nat_numeral)
  have sm: "stickers faceOrder oneMissing =
      ''empty'' # replicate 8 ''white'' @ replicate 9 ''red'' @ replicate 9 ''blue'' @
      replicate 9 ''yellow'' @ replicate 9 ''orange'' @ replicate 9 ''green''"
    by (simp add: oneMissing_def put_def mk_upd solvedCube_mk stickers_faceOrder_mk
          eval_nat_numeral)
  have wf1: "wf_cube solvedCube"
    by (rule wf_solvedCube)
  have all: "\<forall>x \<in> set (stickers faceOrder solvedCube). x \<in> dom colorMap"
    by (simp add: st colorMap_def)
  have wf2: "wf_cube oneMissing"
    by (simp add: oneMissing_def put_def mk_upd solvedCube_mk)
  have some: "\<exists>x \<in> set (stickers faceOrder oneMissing). x \<notin> dom colorMap"
    by (simp add: sm colorMap_def)
  from toKociembaString_facelets [OF wf1] all
  have "toKociembaString solvedCube
          = Inr (map (\<lambda>x. the (colorMap x)) (stickers faceOrder solvedCube))"
    by blast
  then have res1: "toKociembaString solvedCube
                     = Inr ''UUUUUUUUURRRRRRRRRFFFFFFFFFDDDDDDDDDLLLLLLLLLBBBBBBBBB''"
    by (simp add: st colorMap_def eval_nat_numeral)
  from toKociembaString_facelets [OF wf2] paletteCube_oneMissing some
  have res2: "toKociembaString oneMissing = Inl (InvalidColor ''empty'')"
    by blast
  from all have sub: "set (stickers faceOrder solvedCube) \<subseteq> dom colorMap"
    by blast
  from wf1 sub res1 wf2 paletteCube_oneMissing some res2 show ?thesis
    by (intro conjI)
qed

section \<open>Random indices\<close>

lemma randomIndex_less:
  assumes "unit_interval rnd" and "0 < k"
  shows "randomIndex rnd n k < k"
proof -
  from assms(1) have r: "0 \<le> rnd n" "rnd n < 1"
    by (simp_all add: unit_interval_def)
  from r(2) assms(2) have "rnd n * real k < real k"
    by simp
  then have "\<lfloor>rnd n * real k\<rfloor> < int k"
    by (simp add: floor_less_iff)
  moreover from r(1) have "0 \<le> \<lfloor>rnd n * real k\<rfloor>"
    by simp
  ultimately show ?thesis
    by (simp add: randomIndex_def nat_less_iff)
qed

lemma unit_interval_rndZero: "unit_interval rndZero"
  by (simp add: unit_interval_def rndZero_def)

lemma unit_interval_rndHalf: "unit_interval rndHalf"
  by (simp add: unit_interval_def rndHalf_def)

section \<open>The balanced random paint\<close>

text \<open>The shuffle only swaps entries, so it keeps the multiset of the array.\<close>

lemma shuffle_mset:
  assumes "unit_interval rnd" and "i < length a"
  shows "mset (shuffle rnd n i a) = mset a"
  using assms(2)
proof (induction i arbitrary: n a)
  case 0
  then show ?case by simp
next
  case (Suc i)
  let ?j = "randomIndex rnd n (Suc i + 1)"
  let ?b = "a[Suc i := a ! ?j, ?j := a ! Suc i]"
  from randomIndex_less [OF assms(1), of "Suc i + 1" n] have "?j < Suc i + 1"
    by simp
  with Suc.prems have j: "?j < length a"
    by simp
  from j Suc.prems have swap: "mset ?b = mset a"
    by (rule mset_swap)
  from Suc.prems have "i < length ?b"
    by simp
  from Suc.IH [OF this] have "mset (shuffle rnd (n + 1) i ?b) = mset ?b" .
  with swap show ?case
    by (simp add: Let_def)
qed

lemma upt_3: "[0..<3] = [0, 1, 2]"
  by (simp add: upt_rec)

text \<open>
  The write-back puts entry \<open>9 i + 3 r + k\<close> of the array at row \<open>r\<close>, column \<open>k\<close> of the
  \<open>i\<close>-th face of the key order: read back in that order, the stickers are the first 54
  entries of the array.
\<close>

lemma stickers_paint_nth:
  assumes "wf_cube c"
  shows "stickers faceKeys (fst (paint a c)) = map ((!) a) [0..<54]"
proof -
  from assms(1) obtain u0 u1 u2 u3 u4 u5 u6 u7 u8 d0 d1 d2 d3 d4 d5 d6 d7 d8
      f0 f1 f2 f3 f4 f5 f6 f7 f8 b0 b1 b2 b3 b4 b5 b6 b7 b8
      l0 l1 l2 l3 l4 l5 l6 l7 l8 r0 r1 r2 r3 r4 r5 r6 r7 r8
    where c: "c = mk [[u0, u1, u2], [u3, u4, u5], [u6, u7, u8]]
                     [[d0, d1, d2], [d3, d4, d5], [d6, d7, d8]]
                     [[f0, f1, f2], [f3, f4, f5], [f6, f7, f8]]
                     [[b0, b1, b2], [b3, b4, b5], [b6, b7, b8]]
                     [[l0, l1, l2], [l3, l4, l5], [l6, l7, l8]]
                     [[r0, r1, r2], [r3, r4, r5], [r6, r7, r8]]"
    by (rule wf_cube_explicit)
  have "fst (paint a c) =
        mk (map (map ((!) a)) [[0, 1, 2], [3, 4, 5], [6, 7, 8]])
           (map (map ((!) a)) [[9, 10, 11], [12, 13, 14], [15, 16, 17]])
           (map (map ((!) a)) [[18, 19, 20], [21, 22, 23], [24, 25, 26]])
           (map (map ((!) a)) [[27, 28, 29], [30, 31, 32], [33, 34, 35]])
           (map (map ((!) a)) [[36, 37, 38], [39, 40, 41], [42, 43, 44]])
           (map (map ((!) a)) [[45, 46, 47], [48, 49, 50], [51, 52, 53]])"
    unfolding c paint_def faceKeys_def upt_3
    by (simp add: paintCell_def put_def mk_upd eval_nat_numeral)
  then show ?thesis
    by (simp add: stickers_def faceKeys_def upt_rec eval_nat_numeral)
qed

lemma stickers_paint:
  assumes "wf_cube c" and "length a = 54"
  shows "stickers faceKeys (fst (paint a c)) = a"
proof -
  have "map ((!) a) [0..<length a] = a"
    by (rule map_nth)
  with assms(2) have "map ((!) a) [0..<54] = a"
    by simp
  with stickers_paint_nth [OF assms(1), of a] show ?thesis
    by (rule trans)
qed

lemma length_assignments: "length assignments = 54"
  by (simp add: assignments_def colors_def)

lemma count_assignments:
  "count_list assignments k = (if k \<in> set colors then 9 else 0)"
  by (simp add: assignments_def colors_def)

lemma set_assignments: "set assignments = set colors"
  by (auto simp: assignments_def colors_def)

lemma count_list_mset: "count_list xs k = count (mset xs) k"
  by (induction xs) simp_all

text \<open>
  C8. For every random source with values in \<open>[0, 1)\<close> and every solver state whose editor
  cube has the 3x3 shape: after \<open>scrambleCube\<close> the 54 stickers of the editor cube are a
  permutation of the nine-of-each array \<open>assignments\<close>; each sticker is one of the six
  colours, each colour occurs exactly 9 times, and the cube passes \<open>isValidCube\<close>.
\<close>

theorem scrambleCube_balanced:
  assumes "unit_interval rnd" and "wf_cube (cube s)"
  shows "mset (stickers faceKeys (cube (scrambleCube rnd s))) = mset assignments
       \<and> length (stickers faceKeys (cube (scrambleCube rnd s))) = 54
       \<and> set (stickers faceKeys (cube (scrambleCube rnd s))) = set colors
       \<and> (\<forall>k \<in> set colors. count_list (stickers faceKeys (cube (scrambleCube rnd s))) k = 9)
       \<and> isValidCube (cube (scrambleCube rnd s)) = Inr ()"
proof -
  let ?a = "shuffle rnd 0 (length assignments - 1) assignments"
  let ?st = "stickers faceKeys (cube (scrambleCube rnd s))"
  have perm: "mset ?a = mset assignments"
    by (rule shuffle_mset [OF assms(1)]) (simp add: length_assignments)
  then have len: "length ?a = 54"
    by (metis length_assignments size_mset)
  have "cube (scrambleCube rnd s) = fst (paint ?a (cube s))"
    unfolding scrambleCube_def Let_def
    by (simp add: clearSolution_def copyTo3DCube_def stopPlaying_def)
  then have "?st = stickers faceKeys (fst (paint ?a (cube s)))"
    by (rule arg_cong)
  also have "\<dots> = ?a"
    using assms(2) len by (rule stickers_paint)
  finally have st: "?st = ?a" .
  from st perm have p1: "mset ?st = mset assignments"
    by simp
  from st len have p2: "length ?st = 54"
    by simp
  from p1 have p3: "set ?st = set colors"
    by (metis set_assignments set_mset_mset)
  from p1 have cnt: "count_list ?st k = (if k \<in> set colors then 9 else 0)" for k
    by (simp add: count_list_mset count_assignments [symmetric])
  then have p4: "\<forall>k \<in> set colors. count_list ?st k = 9"
    by simp
  have "''empty'' \<notin> set ?st"
    by (simp add: p3 colors_def)
  then have "filter (\<lambda>color. color \<noteq> ''empty'') ?st = ?st"
    by (intro filter_True) auto
  then have painted: "painted (cube (scrambleCube rnd s)) = ?st"
    by (simp add: painted_def)
  have p5: "isValidCube (cube (scrambleCube rnd s)) = Inr ()"
  proof (rule isValidCube_valid)
    show "length (painted (cube (scrambleCube rnd s))) = 54"
      by (simp only: painted p2)
    show "\<forall>k \<in> set (painted (cube (scrambleCube rnd s))).
            count_list (painted (cube (scrambleCube rnd s))) k = 9"
      unfolding painted using p3 p4 by simp
  qed
  from p1 p2 p3 p4 p5 show ?thesis
    by (intro conjI)
qed

theorem scrambleCube_balanced_witness:
  "unit_interval rndHalf \<and> wf_cube (cube newSolver)
   \<and> mset (stickers faceKeys (cube (scrambleCube rndHalf newSolver))) = mset assignments
   \<and> isValidCube (cube (scrambleCube rndHalf newSolver)) = Inr ()"
proof -
  have wf: "wf_cube (cube newSolver)"
    by (simp add: newSolver_def emptyCube_def emptyFace_def wf_cube_def wf_grid_def faceKeys_def
          eval_nat_numeral)
  from scrambleCube_balanced [OF unit_interval_rndHalf wf] unit_interval_rndHalf wf
  show ?thesis
    by (intro conjI) simp_all
qed

section \<open>Asking the solver\<close>

lemma mockSolution_shape:
  assumes "unit_interval rnd"
  shows "8 \<le> length (mockSolution rnd) \<and> length (mockSolution rnd) \<le> 17
       \<and> set (mockSolution rnd) \<subseteq> set mockMoves"
proof -
  have len16: "length mockMoves = 16"
    by (simp add: mockMoves_def)
  from randomIndex_less [OF assms, of 10 0] have "randomIndex rnd 0 10 < 10"
    by simp
  then have "8 \<le> length (mockSolution rnd)" "length (mockSolution rnd) \<le> 17"
    by (simp_all add: mockSolution_def Let_def)
  moreover have "set (mockSolution rnd) \<subseteq> set mockMoves"
  proof
    fix m
    assume "m \<in> set (mockSolution rnd)"
    then obtain i where "m = mockMoves ! randomIndex rnd (i + 1) (length mockMoves)"
      by (auto simp: mockSolution_def Let_def)
    moreover from randomIndex_less [OF assms, of 16 "i + 1"]
    have "randomIndex rnd (i + 1) (length mockMoves) < length mockMoves"
      by (simp add: len16)
    ultimately show "m \<in> set mockMoves"
      by simp
  qed
  ultimately show ?thesis by simp
qed

text \<open>
  C4. The claim: when the request to the solver fails, \<open>generateSolution\<close> rejects and
  returns no move sequence. With the server down, on the solved cube and a random source
  that always returns 0, it resolves with eight times \<open>R\<close>.
\<close>

theorem generateSolution_server_down:
  "generateSolution rndZero apiDown solvedCube =
     Inr [''R'', ''R'', ''R'', ''R'', ''R'', ''R'', ''R'', ''R'']"
proof -
  have "toKociembaString solvedCube =
          Inr ''UUUUUUUUURRRRRRRRRFFFFFFFFFDDDDDDDDDLLLLLLLLLBBBBBBBBB''"
    by (simp add: toKociembaString_stickers solvedCube_mk stickers_faceOrder_mk
          encodeCell_def colorMap_def)
  then have "requestSolution apiDown solvedCube = Inl RequestFailed"
    by (simp add: requestSolution_def apiDown_def)
  moreover have "mockSolution rndZero = [''R'', ''R'', ''R'', ''R'', ''R'', ''R'', ''R'', ''R'']"
    by (simp add: mockSolution_def randomIndex_def rndZero_def mockMoves_def upt_rec Let_def)
  ultimately show ?thesis
    by (simp add: generateSolution_def)
qed

text \<open>
  A reply of the server with a false \<open>success\<close> flag makes the \<open>try\<close> block throw; the
  \<open>catch\<close> block of the same function takes that error too.
\<close>

lemma generateSolution_error_reply:
  assumes "\<forall>request. api request = Answer False solution"
  shows "generateSolution rnd api c = Inr (mockSolution rnd)"
proof -
  from assms have "\<exists>e. requestSolution api c = Inl e"
    by (simp add: requestSolution_def split: sum.split encode_error.split)
  then show ?thesis
    by (auto simp: generateSolution_def)
qed

text \<open>A reply with a true \<open>success\<close> flag is passed on as it is.\<close>

lemma generateSolution_success:
  assumes "toKociembaString c = Inr cubeString" and "api cubeString = Answer True solution"
  shows "generateSolution rnd api c = Inr solution"
  using assms by (simp add: generateSolution_def requestSolution_def)

text \<open>
  C4, as the code has it. For every random source with values in \<open>[0, 1)\<close>, every cube and
  every server that is unavailable for every request: \<open>generateSolution\<close> does not reject;
  it resolves with a mock sequence of 8 to 17 tokens, each taken from the fixed list
  \<open>mockMoves\<close>.
\<close>

theorem generateSolution_unavailable_mock:
  assumes "unit_interval rnd" and "\<forall>request. api request = Unavailable"
  shows "\<exists>solution. generateSolution rnd api c = Inr solution
           \<and> 8 \<le> length solution \<and> length solution \<le> 17
           \<and> set solution \<subseteq> set mockMoves"
proof -
  from assms(2) have "\<exists>e. requestSolution api c = Inl e"
    by (simp add: requestSolution_def split: sum.split encode_error.split)
  then have "generateSolution rnd api c = Inr (mockSolution rnd)"
    by (auto simp: generateSolution_def)
  with mockSolution_shape [OF assms(1)] show ?thesis
    by simp
qed

theorem generateSolution_unavailable_mock_witness:
  "unit_interval rndHalf \<and> (\<forall>request. apiDown request = Unavailable)
   \<and> (\<exists>solution. generateSolution rndHalf apiDown solvedCube = Inr solution
         \<and> 8 \<le> length solution \<and> length solution \<le> 17
         \<and> set solution \<subseteq> set mockMoves)"
proof -
  have down: "\<forall>request. apiDown request = Unavailable"
    by (simp add: apiDown_def)
  from generateSolution_unavailable_mock [OF unit_interval_rndHalf down, of solvedCube]
    unit_interval_rndHalf down
  show ?thesis
    by (intro conjI)
qed

end
